theory Spec2Isabelle
  imports Complex_Main
begin

section \<open>JavaScript values used by the SDK\<close>

text \<open>
  A string-valued field of a JSON payload may be absent: \<open>None\<close> is JavaScript's
  \<open>undefined\<close>/\<open>null\<close>. In a condition JavaScript treats both an absent value and the
  empty string as false; \<open>a || b\<close> yields \<open>b\<close> exactly in those two cases.
\<close>

definition truthy :: "string option \<Rightarrow> bool" where
  "truthy v = (case v of None \<Rightarrow> False | Some x \<Rightarrow> x \<noteq> [])"

definition or_default :: "string option \<Rightarrow> string \<Rightarrow> string" where
  "or_default v d = (case v of None \<Rightarrow> d | Some x \<Rightarrow> if x = [] then d else x)"

text \<open>\<open>String.prototype.toLowerCase\<close> on the ASCII letters, \<open>startsWith\<close> and \<open>includes\<close>.\<close>

definition lower_char :: "char \<Rightarrow> char" where
  "lower_char c =
     (let n = (of_char c :: nat) in if 65 \<le> n \<and> n \<le> 90 then char_of (n + 32) else c)"

definition toLowerCase :: "string \<Rightarrow> string" where
  "toLowerCase = map lower_char"

definition startsWith :: "string \<Rightarrow> string \<Rightarrow> bool" where
  "startsWith s p = (take (length p) s = p)"

fun str_includes :: "string \<Rightarrow> string \<Rightarrow> bool" where
  "str_includes [] p = (p = [])"
| "str_includes (c # cs) p = (startsWith (c # cs) p \<or> str_includes cs p)"

text \<open>The decimal rendering of a number inside a template string.\<close>

definition digit_char :: "nat \<Rightarrow> char" where
  "digit_char n = ''0123456789'' ! n"

function show_nat :: "nat \<Rightarrow> string" where
  "show_nat n =
     (if n < 10 then [digit_char n] else show_nat (n div 10) @ [digit_char (n mod 10)])"
  by pat_completeness auto
termination
  by (relation "measure id") auto

declare show_nat.simps [simp del]

text \<open>An optional boolean such as \<open>isComplete?: boolean\<close> is true in a condition only when it is present and true.\<close>

definition truthy_bool :: "bool option \<Rightarrow> bool" where
  "truthy_bool v = (v = Some True)"

section \<open>Error taxonomy (errors.ts)\<close>

datatype error_name =
    WespokeError | AuthenticationError | InsufficientCreditsError | RateLimitError
  | ConnectionError | ConfigurationError | AssistantNotFoundError | MediaDevicesError
  | APIError

record sdk_error =
  name :: error_name
  message :: string
  code :: string
  statusCode :: "int option"

text \<open>
  A thrown value is either one of the SDK's own errors or a native error of the platform
  (name and message), such as the \<open>TypeError\<close> of a rejected \<open>fetch\<close> or an \<open>AbortError\<close>.
\<close>

datatype js_error = Sdk sdk_error | Native string string

definition mkError :: "error_name \<Rightarrow> string \<Rightarrow> string \<Rightarrow> int option \<Rightarrow> js_error" where
  "mkError n m c st = Sdk \<lparr>name = n, message = m, code = c, statusCode = st\<rparr>"

text \<open>The JSON body of a control-API reply, as far as the SDK reads it.\<close>

record api_body =
  success :: bool
  error_message :: "string option"
  error_code :: "string option"

definition parseAPIError :: "api_body \<Rightarrow> int \<Rightarrow> js_error" where
  "parseAPIError response st =
     (let errorMessage = or_default (error_message response) ''Unknown API error'';
          errorCode = or_default (error_code response) ''UNKNOWN_ERROR''
      in if st = 401 \<or> st = 403 then
           mkError AuthenticationError errorMessage ''AUTHENTICATION_ERROR'' (Some 403)
         else if st = 402 then
           mkError InsufficientCreditsError errorMessage ''INSUFFICIENT_CREDITS'' (Some 402)
         else if st = 404 then
           mkError AssistantNotFoundError (''Assistant not found: '' @ errorMessage)
             ''ASSISTANT_NOT_FOUND'' (Some 404)
         else if st = 429 then
           mkError RateLimitError errorMessage ''RATE_LIMIT_EXCEEDED'' (Some 429)
         else mkError APIError errorMessage errorCode (Some st))"

text \<open>
  The outcome of \<open>await fetch(...)\<close> followed by \<open>await response.json()\<close>: either one of
  the two awaits rejects (the request does not get through, or the body is not JSON), or
  there is a status, a JSON body and the payload \<open>data.data\<close>. \<open>response.ok\<close> is the
  status being in the range 200 to 299.
\<close>

datatype 'a fetched = Rejected js_error | Replied int api_body 'a

definition response_ok :: "int \<Rightarrow> bool" where
  "response_ok st = (200 \<le> st \<and> st \<le> 299)"

text \<open>
  The exchange itself, before the SDK looks at it: no response (\<open>fetch\<close> rejects), a
  response with a status whose body is not JSON (\<open>response.json()\<close> rejects, with a
  \<open>SyntaxError\<close>), or a response with a status and a JSON body. \<open>toggleMute\<close>, like the
  other requests that read a JSON reply, awaits \<open>response.json()\<close> before it tests
  \<open>response.ok\<close>, so the status of a reply whose body does not parse is never read.
\<close>

datatype 'a exchange = NoResponse js_error | NotJson int js_error | Json int api_body 'a

definition awaited :: "'a exchange \<Rightarrow> 'a fetched" where
  "awaited x =
     (case x of
        NoResponse e \<Rightarrow> Rejected e
      | NotJson st e \<Rightarrow> Rejected e
      | Json st data d \<Rightarrow> Replied st data d)"

section \<open>Events and the controller state (types.ts, Wespoke class)\<close>

datatype CallState = IDLE | CONNECTING | CONNECTED | DISCONNECTING | DISCONNECTED | ERROR

record ConversationMessage =
  msg_id :: "string option"
  role :: "string option"
  content :: "string option"
  timestamp :: "int option"
  isComplete :: "bool option"
  isFirstChunk :: "bool option"
  isStreaming :: "bool option"

text \<open>
  A decoded data-channel payload: the type tag, the fields of a conversation message and,
  for the other kinds of payload, the remaining fields kept as an association list.
\<close>

record DataMessage =
  data_type :: string
  data_msg :: ConversationMessage
  toolName :: "string option"
  toolType :: "string option"
  data_rest :: "(string \<times> string) list"

datatype event =
    StateChange CallState
  | ConnectedEv
  | DisconnectedEv "string option"
  | ErrorEv js_error
  | MessageEv ConversationMessage
  | TranscriptionEv DataMessage
  | ToolEv string "string option" "string option"
  | MetricsEv DataMessage
  | BargeInEv DataMessage
  | CallEndingEv DataMessage
  | KnowledgeUsedEv "string list"
  | MicrophoneMuted bool

record LocalAudioTrack =
  isMuted :: bool

text \<open>
  A remote participant: its identity, the \<open>role\<close> field of its metadata when the metadata
  is present and parses as JSON, and the ids of the tracks it has published.
\<close>

record Participant =
  identity :: string
  metadata_role :: "string option"
  track_sids :: "string list"

record Room =
  remoteParticipants :: "Participant list"

text \<open>
  The fields of the class. An abort controller is \<open>None\<close> when the field is \<open>null\<close> and
  \<open>Some aborted\<close> otherwise; \<open>pollInterval\<close> tells whether an interval timer is stored and
  running. \<open>emitted\<close> is the trace of all calls of \<open>emit\<close>, oldest first: every subscriber
  registered for an event sees exactly the entries of that event, in this order.
\<close>

record Wespoke =
  room :: "Room option"
  localAudioTrack :: "LocalAudioTrack option"
  assistantParticipant :: "Participant option"
  attachedTracks :: "string list"
  callState :: CallState
  currentCallId :: "string option"
  currentChatId :: "string option"
  abortController :: "bool option"
  chatAbortController :: "bool option"
  pollInterval :: bool
  seenMessageIds :: "string set"
  shouldEndChatAfterStart :: bool
  emitted :: "event list"

definition emit :: "event \<Rightarrow> Wespoke \<Rightarrow> Wespoke" where
  "emit e s = s\<lparr>emitted := emitted s @ [e]\<rparr>"

definition setState :: "CallState \<Rightarrow> Wespoke \<Rightarrow> Wespoke" where
  "setState newState s =
     (if callState s \<noteq> newState then emit (StateChange newState) (s\<lparr>callState := newState\<rparr>)
      else s)"

definition getState :: "Wespoke \<Rightarrow> CallState" where
  "getState s = callState s"

definition getCallId :: "Wespoke \<Rightarrow> string option" where
  "getCallId s = currentCallId s"

definition getChatId :: "Wespoke \<Rightarrow> string option" where
  "getChatId s = currentChatId s"

definition initial :: Wespoke where
  "initial = \<lparr>room = None, localAudioTrack = None, assistantParticipant = None,
     attachedTracks = [], callState = IDLE, currentCallId = None, currentChatId = None,
     abortController = None, chatAbortController = None, pollInterval = False,
     seenMessageIds = {}, shouldEndChatAfterStart = False, emitted = []\<rparr>"

text \<open>
  Operations. An operation of the class is a function from the state before to a result
  and the state after; a thrown error is the result \<open>Inl\<close>. What the outside world
  contributes at an \<open>await\<close> (the reply to a request, the outcome of a connect, the
  microphone) is an argument of the function. JavaScript runs one piece of code at a
  time, and other code can run only while an operation waits at an \<open>await\<close>. The
  operations are modelled as running to their end, with two exceptions where the code
  itself reckons with an interleaving: the connect loop, during which the page may call
  \<open>endCall\<close>, and \<open>startChatSession\<close>, which is given in two halves so that
  \<open>endChatSession\<close> can run between them. Callbacks of the transport and of the polling
  timer are functions on the state of their own. A subscriber is taken not to call back
  into the class from inside its handler.
\<close>

section \<open>toggleMute\<close>

text \<open>
  \<open>toggleMute\<close> of the current class. The environment is the outcome of the POST to
  \<open>/calls/{callId}/mute\<close>. The track's \<open>mute()\<close>/\<open>unmute()\<close> set its \<open>isMuted\<close> flag.
\<close>

definition toggleMute :: "unit fetched \<Rightarrow> Wespoke \<Rightarrow> (js_error + bool) \<times> Wespoke" where
  "toggleMute muteFetch s =
     (if \<not> truthy (currentCallId s) then
        (Inl (mkError WespokeError ''No active call'' ''NO_ACTIVE_CALL'' None), s)
      else case localAudioTrack s of
        None \<Rightarrow> (Inl (mkError WespokeError ''No active audio track'' ''NO_AUDIO_TRACK'' None), s)
      | Some track \<Rightarrow>
          (let currentMuted = isMuted track; newMuted = (\<not> currentMuted)
           in case muteFetch of
             Rejected e \<Rightarrow> (Inl e, s)
           | Replied st data _ \<Rightarrow>
               if \<not> response_ok st \<or> \<not> success data then (Inl (parseAPIError data st), s)
               else (Inr newMuted,
                     emit (MicrophoneMuted newMuted)
                       (s\<lparr>localAudioTrack := Some (track\<lparr>isMuted := newMuted\<rparr>)\<rparr>))))"

text \<open>
  The older copy of the class (the REST-only version without chat support, also shipped as
  the UMD build of the vanilla example) differs in the returned value only: it ends with
  \<open>return !newMuted; // Return enabled state\<close>.
\<close>

definition toggleMute_legacy :: "unit fetched \<Rightarrow> Wespoke \<Rightarrow> (js_error + bool) \<times> Wespoke" where
  "toggleMute_legacy muteFetch s =
     (if \<not> truthy (currentCallId s) then
        (Inl (mkError WespokeError ''No active call'' ''NO_ACTIVE_CALL'' None), s)
      else case localAudioTrack s of
        None \<Rightarrow> (Inl (mkError WespokeError ''No active audio track'' ''NO_AUDIO_TRACK'' None), s)
      | Some track \<Rightarrow>
          (let currentMuted = isMuted track; newMuted = (\<not> currentMuted)
           in case muteFetch of
             Rejected e \<Rightarrow> (Inl e, s)
           | Replied st data _ \<Rightarrow>
               if \<not> response_ok st \<or> \<not> success data then (Inl (parseAPIError data st), s)
               else (Inr (\<not> newMuted),
                     emit (MicrophoneMuted newMuted)
                       (s\<lparr>localAudioTrack := Some (track\<lparr>isMuted := newMuted\<rparr>)\<rparr>))))"

definition isMuted_api :: "Wespoke \<Rightarrow> bool" where
  "isMuted_api s = (case localAudioTrack s of None \<Rightarrow> True | Some t \<Rightarrow> isMuted t)"

section \<open>endCall\<close>

definition stopMessagePolling :: "Wespoke \<Rightarrow> Wespoke" where
  "stopMessagePolling s = (if pollInterval s then s\<lparr>pollInterval := False\<rparr> else s)"

definition startMessagePolling :: "Wespoke \<Rightarrow> Wespoke" where
  "startMessagePolling s = s\<lparr>pollInterval := True\<rparr>"

definition detachTrack :: "string \<Rightarrow> Wespoke \<Rightarrow> Wespoke" where
  "detachTrack trackSid s =
     (if trackSid \<in> set (attachedTracks s)
      then s\<lparr>attachedTracks := removeAll trackSid (attachedTracks s)\<rparr> else s)"

definition cleanupAllTracks :: "Wespoke \<Rightarrow> Wespoke" where
  "cleanupAllTracks s = (fold detachTrack (attachedTracks s) s)\<lparr>attachedTracks := []\<rparr>"

text \<open>
  What the outside world does during one \<open>endCall\<close>: the outcome of the POST to
  \<open>/calls/{callId}/end\<close> and whether \<open>room.disconnect()\<close> rejects.
\<close>

record end_env =
  endFetch :: "unit fetched"
  disconnectThrows :: "js_error option"

definition endCall_finish :: "Wespoke \<Rightarrow> (js_error + unit) \<times> Wespoke" where
  "endCall_finish s =
     (Inr (), setState DISCONNECTED (s\<lparr>currentCallId := None, seenMessageIds := {}\<rparr>))"

definition endCall :: "end_env \<Rightarrow> Wespoke \<Rightarrow> (js_error + unit) \<times> Wespoke" where
  "endCall env s =
     (if callState s = IDLE \<or> \<not> truthy (currentCallId s) then (Inr (), s)
      else
        (let s1 = stopMessagePolling (setState DISCONNECTING s)
         in case endFetch env of
           Rejected e \<Rightarrow> (Inl e, emit (ErrorEv e) s1)
         | Replied st data _ \<Rightarrow>
             (let s2 = (if abortController s1 \<noteq> None then s1\<lparr>abortController := None\<rparr> else s1);
                  s3 = cleanupAllTracks s2;
                  s4 = (if localAudioTrack s3 \<noteq> None \<and> room s3 \<noteq> None
                        then s3\<lparr>localAudioTrack := None\<rparr> else s3);
                  s5 = s4\<lparr>assistantParticipant := None\<rparr>
              in case room s5 of
                None \<Rightarrow> endCall_finish s5
              | Some r \<Rightarrow>
                  (case disconnectThrows env of
                     Some e \<Rightarrow> (Inl e, emit (ErrorEv e) s5)
                   | None \<Rightarrow> endCall_finish (s5\<lparr>room := None\<rparr>)))))"

section \<open>connectToRoom\<close>

record Config =
  maxRetryAttempts :: int
  retryDelay :: real

text \<open>The constructor's defaults: \<open>config.maxRetryAttempts || 3\<close> and \<open>config.retryDelay || 2000\<close>.\<close>

definition mkConfig :: "int option \<Rightarrow> real option \<Rightarrow> Config" where
  "mkConfig m d =
     \<lparr>maxRetryAttempts = (case m of None \<Rightarrow> 3 | Some k \<Rightarrow> if k = 0 then 3 else k),
      retryDelay = (case d of None \<Rightarrow> 2000 | Some x \<Rightarrow> if x = 0 then 2000 else x)\<rparr>"

definition message_of :: "js_error \<Rightarrow> string" where
  "message_of e = (case e of Sdk x \<Rightarrow> message x | Native n m \<Rightarrow> m)"

definition is_auth_failure :: "js_error \<Rightarrow> bool" where
  "is_auth_failure e =
     (let errorMessage = toLowerCase (message_of e)
      in str_includes errorMessage ''unauthorized'' \<or> str_includes errorMessage ''forbidden'')"

text \<open>
  What the outside world does during attempt \<open>k\<close>: the outcome of \<open>room.connect\<close>
  (\<open>None\<close> is success), and whether the page calls \<open>endCall\<close> while that connect or the
  backoff wait after it is pending. \<open>endCall\<close> is the only code that touches the abort
  controller of a connect in flight.
\<close>

record attempt_env =
  connectResult :: "js_error option"
  interleaved :: "end_env option"

datatype conn_step = Attempt int | Wait real

definition interleave :: "end_env option \<Rightarrow> Wespoke \<Rightarrow> Wespoke" where
  "interleave i s = (case i of None \<Rightarrow> s | Some env \<Rightarrow> snd (endCall env s))"

definition null_deref :: js_error where
  "null_deref = Native ''TypeError'' ''Cannot read properties of null''"

definition connection_error :: "string \<Rightarrow> js_error" where
  "connection_error m = mkError ConnectionError m ''CONNECTION_ERROR'' None"

text \<open>
  The wait after a failed attempt, and the error after the last one. The wait is
  \<open>retryDelay * Math.pow(1.5, attempt - 1)\<close>, taken here as the exact product; the code
  computes it in double precision, which agrees wherever the product is representable,
  as it is for the default delay.
\<close>

definition backoff :: "real \<Rightarrow> int \<Rightarrow> real" where
  "backoff baseDelay attempt = baseDelay * (3 / 2) ^ nat (attempt - 1)"

definition exhausted :: "int \<Rightarrow> js_error" where
  "exhausted n = connection_error (''Failed to connect after '' @ show_nat (nat n) @ '' attempts'')"

text \<open>
  The retry loop, from attempt \<open>attempt\<close> on. The trace lists the connects made and the
  waits between them. Reading \<open>this.abortController.signal\<close> when the field is \<open>null\<close>
  throws a \<open>TypeError\<close> outside the \<open>try\<close>; \<open>this.room.connect\<close> on a \<open>null\<close> room throws
  inside it and is handled like a failed connect. The delay is computed on exact numbers.
\<close>

function connectLoop ::
  "int \<Rightarrow> real \<Rightarrow> (int \<Rightarrow> attempt_env) \<Rightarrow> int \<Rightarrow> Wespoke
     \<Rightarrow> (js_error + unit) \<times> Wespoke \<times> conn_step list" where
  "connectLoop maxAttempts baseDelay env attempt s =
     (if attempt \<le> maxAttempts then
        (case abortController s of
           None \<Rightarrow> (Inl null_deref, s, [])
         | Some aborted \<Rightarrow>
             if aborted then (Inl (connection_error ''Connection aborted''), s, [])
             else
               (let outcome = (if room s = None then Some null_deref
                               else connectResult (env attempt));
                    s' = interleave (interleaved (env attempt)) s
                in case outcome of
                  None \<Rightarrow> (Inr (), s', [Attempt attempt])
                | Some err \<Rightarrow>
                    if is_auth_failure err then
                      (Inl (connection_error ''Authentication failed''), s', [Attempt attempt])
                    else if attempt = maxAttempts then
                      (Inl (exhausted attempt), s', [Attempt attempt])
                    else
                      (case connectLoop maxAttempts baseDelay env (attempt + 1) s' of
                         (r, s'', tr) \<Rightarrow>
                           (r, s'', Attempt attempt # Wait (backoff baseDelay attempt) # tr))))
      else (Inr (), s, []))"
  by pat_completeness auto
termination
  by (relation "measure (\<lambda>(maxAttempts, baseDelay, env, attempt, s). nat (maxAttempts - attempt + 1))")
     auto

declare connectLoop.simps [simp del]

definition connectToRoom ::
  "Config \<Rightarrow> (int \<Rightarrow> attempt_env) \<Rightarrow> Wespoke \<Rightarrow> (js_error + unit) \<times> Wespoke \<times> conn_step list" where
  "connectToRoom cfg env s =
     (if room s = None then (Inl (connection_error ''Room not initialized''), s, [])
      else connectLoop (maxRetryAttempts cfg) (retryDelay cfg) env 1
             (s\<lparr>abortController := Some False\<rparr>))"

section \<open>startCall\<close>

datatype mic_outcome = MicOk | MicDenied js_error | PublishFails js_error

text \<open>
  What the outside world does during one \<open>startCall\<close>: the reply to the token request
  (its payload is the call id), the connect attempts, the microphone, and the participants
  already in the room at join time.
\<close>

record start_env =
  tokenFetch :: "string fetched"
  attempts :: "int \<Rightarrow> attempt_env"
  mic :: mic_outcome
  present :: "Participant list"

definition fetchToken :: "string fetched \<Rightarrow> js_error + string" where
  "fetchToken f =
     (case f of
        Rejected e \<Rightarrow> Inl e
      | Replied st data callId \<Rightarrow>
          if \<not> response_ok st \<or> \<not> success data then Inl (parseAPIError data st)
          else Inr callId)"

definition createRoom :: "Participant list \<Rightarrow> Wespoke \<Rightarrow> Wespoke" where
  "createRoom ps s = s\<lparr>room := Some \<lparr>remoteParticipants = ps\<rparr>\<rparr>"

definition publishLocalAudio :: "mic_outcome \<Rightarrow> Wespoke \<Rightarrow> (js_error + unit) \<times> Wespoke" where
  "publishLocalAudio m s =
     (if room s = None then (Inl (connection_error ''Room not initialized''), s)
      else case m of
        MicDenied e \<Rightarrow>
          (Inl (mkError MediaDevicesError ''Failed to access microphone'' ''MEDIA_DEVICES_ERROR'' None), s)
      | PublishFails e \<Rightarrow>
          (Inl (mkError MediaDevicesError ''Failed to access microphone'' ''MEDIA_DEVICES_ERROR'' None),
           s\<lparr>localAudioTrack := Some \<lparr>isMuted = False\<rparr>\<rparr>)
      | MicOk \<Rightarrow> (Inr (), s\<lparr>localAudioTrack := Some \<lparr>isMuted = False\<rparr>\<rparr>))"

definition isAssistantParticipant :: "Participant \<Rightarrow> bool" where
  "isAssistantParticipant p =
     (metadata_role p = Some ''assistant''
      \<or> str_includes (toLowerCase (identity p)) ''agent''
      \<or> str_includes (toLowerCase (identity p)) ''assistant'')"

definition handleAssistantAudioTrack :: "string \<Rightarrow> Wespoke \<Rightarrow> Wespoke" where
  "handleAssistantAudioTrack sid s =
     (if sid \<noteq> [] \<and> sid \<in> set (attachedTracks s) then s
      else if sid \<noteq> [] then s\<lparr>attachedTracks := attachedTracks s @ [sid]\<rparr>
      else s)"

definition setupAssistantTracks :: "Participant \<Rightarrow> Wespoke \<Rightarrow> Wespoke" where
  "setupAssistantTracks p s = fold handleAssistantAudioTrack (track_sids p) s"

definition checkExistingParticipants :: "Wespoke \<Rightarrow> Wespoke" where
  "checkExistingParticipants s =
     (case room s of
        None \<Rightarrow> s
      | Some r \<Rightarrow>
          fold (\<lambda>p s'. if isAssistantParticipant p \<and> assistantParticipant s' = None
                        then setupAssistantTracks p (s'\<lparr>assistantParticipant := Some p\<rparr>)
                        else s')
               (remoteParticipants r) s)"

text \<open>The body of the \<open>try\<close> block of \<open>startCall\<close>.\<close>

definition bootstrap :: "Config \<Rightarrow> start_env \<Rightarrow> Wespoke \<Rightarrow> (js_error + unit) \<times> Wespoke" where
  "bootstrap cfg env s =
     (case fetchToken (tokenFetch env) of
        Inl e \<Rightarrow> (Inl e, s)
      | Inr callId \<Rightarrow>
          (let s1 = createRoom (present env) (s\<lparr>currentCallId := Some callId\<rparr>)
           in case connectToRoom cfg (attempts env) s1 of
             (Inl e, s2, tr) \<Rightarrow> (Inl e, s2)
           | (Inr u, s2, tr) \<Rightarrow>
               (case publishLocalAudio (mic env) s2 of
                  (Inl e, s3) \<Rightarrow> (Inl e, s3)
                | (Inr u', s3) \<Rightarrow>
                    (Inr (), setState CONNECTED
                               (startMessagePolling (checkExistingParticipants s3))))))"

definition startCall :: "Config \<Rightarrow> start_env \<Rightarrow> Wespoke \<Rightarrow> (js_error + unit) \<times> Wespoke" where
  "startCall cfg env s =
     (if callState s \<noteq> IDLE \<and> callState s \<noteq> DISCONNECTED then
        (Inl (mkError WespokeError ''A call is already in progress'' ''CALL_IN_PROGRESS'' None), s)
      else
        (case bootstrap cfg env ((setState CONNECTING s)\<lparr>seenMessageIds := {}\<rparr>) of
           (Inr u, s') \<Rightarrow> (Inr (), s')
         | (Inl e, s') \<Rightarrow>
             (Inl e, emit (ErrorEv e) ((setState IDLE s')\<lparr>currentCallId := None\<rparr>))))"

text \<open>The handler registered for the room's \<open>Disconnected\<close> event.\<close>

definition onRoomDisconnected :: "string option \<Rightarrow> Wespoke \<Rightarrow> Wespoke" where
  "onRoomDisconnected reason s =
     emit (DisconnectedEv reason) (stopMessagePolling (setState DISCONNECTED s))"

section \<open>Message delivery in call mode: data channel and polling\<close>

definition seen_has :: "string option \<Rightarrow> Wespoke \<Rightarrow> bool" where
  "seen_has v s = (case v of None \<Rightarrow> False | Some i \<Rightarrow> i \<in> seenMessageIds s)"

definition seen_add :: "string option \<Rightarrow> Wespoke \<Rightarrow> Wespoke" where
  "seen_add v s =
     (case v of None \<Rightarrow> s | Some i \<Rightarrow> s\<lparr>seenMessageIds := insert i (seenMessageIds s)\<rparr>)"

text \<open>
  The payload after \<open>TextDecoder.decode\<close> and \<open>JSON.parse\<close>. \<open>Malformed\<close> stands for a
  payload on which one of the two throws, or whose value is \<open>null\<close>: the \<open>catch\<close> logs it.
\<close>

datatype payload = Malformed | Decoded DataMessage

definition handleDataChannelMessage :: "payload \<Rightarrow> Wespoke \<Rightarrow> Wespoke" where
  "handleDataChannelMessage p s =
     (case p of
        Malformed \<Rightarrow> s
      | Decoded d \<Rightarrow>
          (let t = data_type d; m = data_msg d
           in if t = ''message'' \<or> t = ''conversation_item'' then
                (if truthy (msg_id m) \<and> seen_has (msg_id m) s \<and> \<not> truthy_bool (isComplete m)
                 then s
                 else
                   (let s1 = emit (MessageEv m) s
                    in if truthy (msg_id m) \<and> truthy_bool (isComplete m)
                       then seen_add (msg_id m) s1 else s1))
              else if t = ''transcription_stream'' then emit (TranscriptionEv d) s
              else if t = ''tool_start'' \<or> t = ''tool_complete'' \<or> t = ''tool_failed''
                      \<or> t = ''tool_delayed''
                then emit (ToolEv (drop 5 t) (toolName d) (toolType d)) s
              else if t = ''metrics'' then emit (MetricsEv d) s
              else if t = ''barge_in'' then emit (BargeInEv d) s
              else if t = ''call_ending'' then emit (CallEndingEv d) s
              else s))"

definition getMessages ::
  "ConversationMessage list fetched \<Rightarrow> Wespoke \<Rightarrow> js_error + ConversationMessage list" where
  "getMessages f s =
     (if \<not> truthy (currentCallId s) then
        Inl (mkError WespokeError ''No active call'' ''NO_ACTIVE_CALL'' None)
      else case f of
        Rejected e \<Rightarrow> Inl e
      | Replied st data ms \<Rightarrow>
          if \<not> response_ok st \<or> \<not> success data then Inl (parseAPIError data st)
          else Inr ms)"

text \<open>The body of \<open>messages.forEach\<close> in the polling callback, and the loop itself.\<close>

definition emitIfUnseen :: "ConversationMessage \<Rightarrow> Wespoke \<Rightarrow> Wespoke" where
  "emitIfUnseen m s =
     (if truthy (msg_id m) \<and> \<not> seen_has (msg_id m) s
      then emit (MessageEv m) (seen_add (msg_id m) s) else s)"

fun emitUnseen :: "ConversationMessage list \<Rightarrow> Wespoke \<Rightarrow> Wespoke" where
  "emitUnseen [] s = s"
| "emitUnseen (m # ms) s = emitUnseen ms (emitIfUnseen m s)"

text \<open>One tick of the 2-second interval started by \<open>startMessagePolling\<close>.\<close>

definition pollTick :: "ConversationMessage list fetched \<Rightarrow> Wespoke \<Rightarrow> Wespoke" where
  "pollTick f s =
     (if truthy (currentCallId s) \<and> callState s = CONNECTED then
        (case getMessages f s of Inl e \<Rightarrow> s | Inr messages \<Rightarrow> emitUnseen messages s)
      else s)"

section \<open>Chat sessions\<close>

definition endChatSession :: "unit fetched \<Rightarrow> Wespoke \<Rightarrow> (js_error + unit) \<times> Wespoke" where
  "endChatSession f s =
     (if callState s = CONNECTING \<and> chatAbortController s \<noteq> None \<and> \<not> truthy (currentChatId s)
      then (Inr (), setState IDLE
                      (s\<lparr>shouldEndChatAfterStart := True, chatAbortController := Some True\<rparr>))
      else if \<not> truthy (currentChatId s) then (Inr (), s\<lparr>shouldEndChatAfterStart := False\<rparr>)
      else
        (let s1 = setState DISCONNECTING s
         in case f of
           Replied st data u \<Rightarrow>
             (Inr (), emit (DisconnectedEv (Some ''Chat session ended''))
                        (setState DISCONNECTED
                           (s1\<lparr>currentChatId := None, seenMessageIds := {},
                               shouldEndChatAfterStart := False\<rparr>)))
         | Rejected e \<Rightarrow>
             (Inl e, emit (ErrorEv e)
                       (emit (DisconnectedEv (Some ''Chat session ended with error''))
                          (setState DISCONNECTED
                             (s1\<lparr>currentChatId := None, shouldEndChatAfterStart := False,
                                 seenMessageIds := {}\<rparr>))))))"

text \<open>
  \<open>startChatSession\<close> up to its first \<open>await\<close>: the two guards and the set-up. An error
  here is thrown before the \<open>try\<close> block is entered.
\<close>

definition startChatSession_begin :: "Wespoke \<Rightarrow> js_error + Wespoke" where
  "startChatSession_begin s =
     (if truthy (currentChatId s) then
        Inl (mkError WespokeError ''A chat session is already in progress'' ''CHAT_IN_PROGRESS'' None)
      else if (callState s \<noteq> IDLE \<and> callState s \<noteq> DISCONNECTED) \<or> truthy (currentCallId s) then
        Inl (mkError WespokeError ''Cannot start chat while a voice call is active''
               ''CALL_IN_PROGRESS'' None)
      else Inr ((setState CONNECTING s)
                  \<lparr>seenMessageIds := {}, chatAbortController := Some False,
                   shouldEndChatAfterStart := False\<rparr>))"

definition is_abort :: "js_error \<Rightarrow> bool" where
  "is_abort e = (case e of Sdk x \<Rightarrow> False | Native n m \<Rightarrow> n = ''AbortError'')"

definition startChat_catch :: "js_error \<Rightarrow> Wespoke \<Rightarrow> (js_error + unit) \<times> Wespoke" where
  "startChat_catch e s =
     (if is_abort e then
        (Inr (), emit (DisconnectedEv (Some ''Chat session start aborted'')) (setState IDLE s))
      else
        (Inl e, emit (ErrorEv e)
                  (emit (DisconnectedEv (Some ''Chat session failed to start'')) (setState IDLE s))))"

text \<open>
  What the outside world does during one \<open>startChatSession\<close>: the reply to the creation
  request (its payload is the chat id) and the reply to the termination request, should
  the session be ended right after it was created.
\<close>

record chat_env =
  createFetch :: "string fetched"
  nestedEnd :: "unit fetched"

text \<open>\<open>startChatSession\<close> from the moment the creation request settles, with its \<open>catch\<close> and \<open>finally\<close>.\<close>

definition startChatSession_resume :: "chat_env \<Rightarrow> Wespoke \<Rightarrow> (js_error + unit) \<times> Wespoke" where
  "startChatSession_resume env s =
     (case (case createFetch env of
              Rejected e \<Rightarrow> startChat_catch e s
            | Replied st data chatId \<Rightarrow>
                if \<not> response_ok st \<or> \<not> success data then startChat_catch (parseAPIError data st) s
                else
                  (let s1 = s\<lparr>currentChatId := Some chatId\<rparr>
                   in if shouldEndChatAfterStart s1 then
                        (case endChatSession (nestedEnd env) s1 of
                           (Inl e, s2) \<Rightarrow> startChat_catch e s2
                         | (Inr u, s2) \<Rightarrow> (Inr (), s2))
                      else (Inr (), emit ConnectedEv (setState CONNECTED s1))))
      of (r, s') \<Rightarrow> (r, s'\<lparr>chatAbortController := None\<rparr>))"

text \<open>The whole operation when nothing else runs while the request is pending.\<close>

definition startChatSession :: "chat_env \<Rightarrow> Wespoke \<Rightarrow> (js_error + unit) \<times> Wespoke" where
  "startChatSession env s =
     (case startChatSession_begin s of
        Inl e \<Rightarrow> (Inl e, s)
      | Inr s1 \<Rightarrow> startChatSession_resume env s1)"

section \<open>Chat streaming: handleSSEStream and sendChatMessage\<close>

text \<open>
  \<open>String.prototype.trim\<close>. A string is a list of characters with codes below 256; of
  the white space and line terminators that \<open>trim\<close> strips, these are the space, the
  characters 9 to 13 and the no-break space.
\<close>

definition is_space :: "char \<Rightarrow> bool" where
  "is_space c =
     (c \<in> set [CHR '' '', CHR 0x09, CHR 0x0A, CHR 0x0B, CHR 0x0C, CHR 0x0D, CHR 0xA0])"

definition trim :: "string \<Rightarrow> string" where
  "trim x = rev (dropWhile is_space (rev (dropWhile is_space x)))"

text \<open>
  The JSON object of a \<open>data:\<close> line, as far as the SDK reads it: \<open>message_id\<close>,
  \<open>message_role\<close> and \<open>message_content\<close> are the fields of \<open>eventData.message\<close> when it is
  an object, \<open>sse_error_message\<close> is \<open>eventData.message\<close> of an \<open>error\<close> record.
\<close>

record sse_data =
  messageId :: "string option"
  accumulatedContent :: "string option"
  message_id :: "string option"
  message_role :: "string option"
  message_content :: "string option"
  sse_timestamp :: "int option"
  sse_toolName :: "string option"
  sse_toolType :: "string option"
  sources :: "string list option"
  sse_error_message :: "string option"
  sse_error_code :: "string option"

text \<open>
  One logical record of the stream after framing: the value of its \<open>event:\<close> line (empty
  when there is none), the parsed value of its \<open>data:\<close> line (\<open>None\<close> when there is none,
  when \<open>JSON.parse\<close> throws or when the value is falsy), and the reading of \<open>Date.now()\<close>
  while it is handled.
\<close>

record sse_record =
  eventType :: string
  eventData :: "sse_data option"
  now :: nat

datatype sse_flow = Next | Return | Throw js_error

definition timestamp_or_now :: "int option \<Rightarrow> nat \<Rightarrow> int" where
  "timestamp_or_now t n = (case t of None \<Rightarrow> int n | Some x \<Rightarrow> if x = 0 then int n else x)"

text \<open>The object \<open>completeMessage\<close> built for a \<open>message:complete\<close> record.\<close>

definition completeMessage :: "sse_data \<Rightarrow> nat \<Rightarrow> string \<Rightarrow> string \<Rightarrow> ConversationMessage" where
  "completeMessage d n currentMessageId accumulated =
     \<lparr>msg_id = Some (or_default (message_id d) currentMessageId),
      role = Some (or_default (message_role d) ''assistant''),
      content = Some (or_default (message_content d) (trim accumulated)),
      timestamp = Some (timestamp_or_now (sse_timestamp d) n),
      isComplete = Some True, isFirstChunk = None, isStreaming = None\<rparr>"

text \<open>
  The \<open>switch\<close> on the event type. The local variables \<open>currentMessageId\<close> and
  \<open>accumulatedContent\<close> are passed as a pair.
\<close>

definition handleSSEEvent ::
  "sse_record \<Rightarrow> string \<times> string \<Rightarrow> Wespoke \<Rightarrow> sse_flow \<times> (string \<times> string) \<times> Wespoke" where
  "handleSSEEvent r loc s =
     (case loc of (currentMessageId, accumulated) \<Rightarrow>
        (case eventData r of
           None \<Rightarrow> (Next, loc, s)
         | Some d \<Rightarrow>
             (let t = eventType r
              in if t = [] then (Next, loc, s)
                 else if t = ''message:start'' then
                   (Next, (or_default (messageId d) (''assistant-'' @ show_nat (now r)), []), s)
                 else if t = ''message:chunk'' then
                   (Next, (currentMessageId, or_default (accumulatedContent d) accumulated), s)
                 else if t = ''message:complete'' then
                   (let m = completeMessage d (now r) currentMessageId accumulated
                    in (Next, (currentMessageId, []),
                        if \<not> seen_has (msg_id m) s
                        then emit (MessageEv m) (seen_add (msg_id m) s)
                        else s))
                 else if t = ''tool:started'' then
                   (Next, loc, emit (ToolEv ''start'' (sse_toolName d) (sse_toolType d)) s)
                 else if t = ''tool:completed'' then
                   (Next, loc, emit (ToolEv ''complete'' (sse_toolName d) (sse_toolType d)) s)
                 else if t = ''tool:failed'' then
                   (Next, loc, emit (ToolEv ''failed'' (sse_toolName d) (sse_toolType d)) s)
                 else if t = ''knowledge:used'' then
                   (Next, loc,
                    emit (KnowledgeUsedEv (case sources d of None \<Rightarrow> [] | Some l \<Rightarrow> l)) s)
                 else if t = ''error'' then
                   (Throw (mkError WespokeError (or_default (sse_error_message d) ''Chat error'')
                             (or_default (sse_error_code d) ''CHAT_ERROR'') None), loc, s)
                 else if t = ''done'' then (Return, loc, s)
                 else (Next, loc, s))))"

text \<open>
  The stream as the loop handles it: a framed record, or a rejection of
  \<open>reader.read()\<close> that ends it.
\<close>

datatype stream_item = Record sse_record | ReadError js_error

fun handleSSERecords ::
  "stream_item list \<Rightarrow> string \<times> string \<Rightarrow> Wespoke \<Rightarrow> (js_error + unit) \<times> Wespoke" where
  "handleSSERecords [] loc s = (Inr (), s)"
| "handleSSERecords (ReadError e # rest) loc s = (Inl e, s)"
| "handleSSERecords (Record r # rest) loc s =
     (case handleSSEEvent r loc s of
        (Next, loc', s') \<Rightarrow> handleSSERecords rest loc' s'
      | (Return, loc', s') \<Rightarrow> (Inr (), s')
      | (Throw e, loc', s') \<Rightarrow> (Inl e, s'))"

text \<open>
  Framing. \<open>splitOn sep x\<close> is \<open>x.split(sep)\<close> for a non-empty separator: the pieces
  between the occurrences of \<open>sep\<close>, found from left to right.
\<close>

function splitOn :: "string \<Rightarrow> string \<Rightarrow> string list" where
  "splitOn sep [] = [[]]"
| "splitOn sep (c # cs) =
     (if sep \<noteq> [] \<and> startsWith (c # cs) sep
      then [] # splitOn sep (drop (length sep) (c # cs))
      else (case splitOn sep cs of [] \<Rightarrow> [[c]] | p # ps \<Rightarrow> (c # p) # ps))"
  by pat_completeness auto
termination
  by (relation "measure (\<lambda>(sep, x). length x)") auto

definition newline :: string where
  "newline = [CHR 0x0A]"

text \<open>
  \<open>JSON.parse\<close> is a parameter of the model: on the text of a \<open>data:\<close> line it throws,
  yields a falsy value (\<open>null\<close>, \<open>0\<close>, \<open>false\<close>, \<open>""\<close>), or yields an object.
\<close>

datatype parsed = ParseError | Falsy | Object sse_data

text \<open>
  The loop over the lines of one message: an \<open>event: \<close> line sets the type, a \<open>data: \<close>
  line sets the data unless parsing throws, any other line is ignored.
\<close>

definition parseLine ::
  "(string \<Rightarrow> parsed) \<Rightarrow> string \<Rightarrow> string \<times> sse_data option \<Rightarrow> string \<times> sse_data option" where
  "parseLine parse line acc =
     (case acc of (etype, edata) \<Rightarrow>
        if startsWith line ''event: '' then (trim (drop 7 line), edata)
        else if startsWith line ''data: '' then
          (case parse (drop 6 line) of
             ParseError \<Rightarrow> (etype, edata)
           | Falsy \<Rightarrow> (etype, None)
           | Object d \<Rightarrow> (etype, Some d))
        else (etype, edata))"

text \<open>One message between blank lines: skipped when empty or a comment, else its type and data.\<close>

definition parseMessage ::
  "(string \<Rightarrow> parsed) \<Rightarrow> string \<Rightarrow> (string \<times> sse_data option) option" where
  "parseMessage parse msg =
     (if trim msg = [] \<or> startsWith msg '': '' then None
      else Some (fold (parseLine parse) (splitOn newline msg) ([], None)))"

text \<open>The \<open>k\<close>-th record of the stream is handled at time \<open>clock k\<close>.\<close>

fun stamp :: "(nat \<Rightarrow> nat) \<Rightarrow> nat \<Rightarrow> (string \<times> sse_data option) list \<Rightarrow> stream_item list" where
  "stamp clock k [] = []"
| "stamp clock k ((t, d) # fs) =
     Record \<lparr>eventType = t, eventData = d, now = clock k\<rparr> # stamp clock (Suc k) fs"

text \<open>
  What \<open>reader.read()\<close> yields, after decoding: a piece of text, or a rejection. The end
  of the list is \<open>done\<close>.
\<close>

datatype read = Chunk string | ReadFails js_error

text \<open>
  The reading loop: the text read is appended to the buffer, the buffer is split at blank
  lines, the last piece stays in the buffer and the others are the messages of this
  round. A piece still in the buffer when the stream ends is dropped.
\<close>

fun readStream ::
  "(string \<Rightarrow> parsed) \<Rightarrow> (nat \<Rightarrow> nat) \<Rightarrow> nat \<Rightarrow> string \<Rightarrow> read list \<Rightarrow> stream_item list" where
  "readStream parse clock k buffer [] = []"
| "readStream parse clock k buffer (ReadFails e # rest) = [ReadError e]"
| "readStream parse clock k buffer (Chunk x # rest) =
     (let parts = splitOn (newline @ newline) (buffer @ x);
          records = List.map_filter (parseMessage parse) (butlast parts)
      in stamp clock k records
         @ readStream parse clock (k + length records) (last parts) rest)"

text \<open>
  \<open>handleSSEStream\<close>: \<open>now0\<close> is the reading of \<open>Date.now()\<close> on entry. The records are
  handled in the order in which they are read; handling stops at the first \<open>done\<close> or
  \<open>error\<close> record and at a rejected read.
\<close>

definition handleSSEStream ::
  "(string \<Rightarrow> parsed) \<Rightarrow> (nat \<Rightarrow> nat) \<Rightarrow> nat \<Rightarrow> read list option \<Rightarrow> Wespoke
     \<Rightarrow> (js_error + unit) \<times> Wespoke" where
  "handleSSEStream parse clock now0 body s =
     (case body of
        None \<Rightarrow> (Inl (mkError WespokeError ''No response body'' ''NO_RESPONSE_BODY'' None), s)
      | Some reads \<Rightarrow>
          handleSSERecords (readStream parse clock 0 [] reads)
            (''assistant-'' @ show_nat now0, []) s)"

text \<open>
  What the outside world does during one \<open>sendChatMessage\<close>: the clock, the reply to the
  POST with its body as the reader yields it, and \<open>JSON.parse\<close>.
\<close>

record send_env =
  send_now :: nat
  sendFetch :: "read list option fetched"
  json_parse :: "string \<Rightarrow> parsed"
  send_clock :: "nat \<Rightarrow> nat"

definition sendChatMessage ::
  "string \<Rightarrow> send_env \<Rightarrow> Wespoke \<Rightarrow> (js_error + unit) \<times> Wespoke" where
  "sendChatMessage text env s =
     (if \<not> truthy (currentChatId s) then
        (Inl (mkError WespokeError ''No active chat session'' ''NO_ACTIVE_CHAT'' None), s)
      else if callState s \<noteq> CONNECTED then
        (Inl (mkError WespokeError ''Not connected to a chat session'' ''NOT_CONNECTED'' None), s)
      else
        (let userMessage =
               \<lparr>msg_id = Some (''user-'' @ show_nat (send_now env)), role = Some ''user'',
                content = Some text, timestamp = Some (int (send_now env)),
                isComplete = Some True, isFirstChunk = None, isStreaming = None\<rparr>;
             s1 = (if \<not> seen_has (msg_id userMessage) s
                   then emit (MessageEv userMessage) (seen_add (msg_id userMessage) s) else s)
         in case (case sendFetch env of
                    Rejected e \<Rightarrow> (Inl e, s1)
                  | Replied st data body \<Rightarrow>
                      if \<not> response_ok st then (Inl (parseAPIError data st), s1)
                      else handleSSEStream (json_parse env) (send_clock env) (send_now env) body s1)
            of (Inl e, s2) \<Rightarrow> (Inl e, emit (ErrorEv e) s2)
             | (Inr u, s2) \<Rightarrow> (Inr (), s2)))"

section \<open>Observations on the trace of emitted events\<close>

fun stateChanges :: "event list \<Rightarrow> CallState list" where
  "stateChanges [] = []"
| "stateChanges (StateChange c # es) = c # stateChanges es"
| "stateChanges (e # es) = stateChanges es"

fun messages :: "event list \<Rightarrow> ConversationMessage list" where
  "messages [] = []"
| "messages (MessageEv m # es) = m # messages es"
| "messages (e # es) = messages es"

text \<open>The events emitted on the way from state \<open>s\<close> to state \<open>s'\<close>.\<close>

definition emitted_since :: "Wespoke \<Rightarrow> Wespoke \<Rightarrow> event list" where
  "emitted_since s s' = drop (length (emitted s)) (emitted s')"

definition messages_with :: "string \<Rightarrow> event list \<Rightarrow> ConversationMessage list" where
  "messages_with i es = filter (\<lambda>m. msg_id m = Some i) (messages es)"

section \<open>Notions used in the statements\<close>

text \<open>
  No two consecutive \<open>stateChange\<close> emissions carry the same state, and the last one
  carries the current state.
\<close>

definition stateChange_inv :: "Wespoke \<Rightarrow> bool" where
  "stateChange_inv s =
     (distinct_adj (stateChanges (emitted s))
      \<and> (stateChanges (emitted s) \<noteq> [] \<longrightarrow> last (stateChanges (emitted s)) = callState s))"

text \<open>
  A classified error is one of the SDK's own error classes, an instance of
  \<open>WespokeError\<close>, as \<open>parseAPIError\<close> returns; a native error of the platform is not.
\<close>

definition classified :: "js_error \<Rightarrow> bool" where
  "classified e = (case e of Sdk x \<Rightarrow> True | Native n m \<Rightarrow> False)"

text \<open>A payload that the data channel handles as a conversation message.\<close>

definition is_conversation :: "DataMessage \<Rightarrow> bool" where
  "is_conversation d = (data_type d = ''message'' \<or> data_type d = ''conversation_item'')"

text \<open>
  The messages with id \<open>i\<close> that one polling loop over \<open>ms\<close> emits from state \<open>s\<close>: the
  first one in the list, unless the id has been seen.
\<close>

definition polled :: "string \<Rightarrow> ConversationMessage list \<Rightarrow> Wespoke \<Rightarrow> ConversationMessage list" where
  "polled i ms s =
     (if i \<in> seenMessageIds s then []
      else case find (\<lambda>m. msg_id m = Some i) ms of None \<Rightarrow> [] | Some m \<Rightarrow> [m])"

text \<open>The accumulation buffer after a run of \<open>message:chunk\<close> records.\<close>

fun buffered :: "string \<Rightarrow> sse_record list \<Rightarrow> string" where
  "buffered acc [] = acc"
| "buffered acc (c # cs) =
     buffered (case eventData c of None \<Rightarrow> acc | Some d \<Rightarrow> or_default (accumulatedContent d) acc) cs"

text \<open>The trace of a connect loop that fails from attempt \<open>k\<close> on and gives up \<open>n\<close> attempts later.\<close>

fun backoff_trace :: "real \<Rightarrow> int \<Rightarrow> nat \<Rightarrow> conn_step list" where
  "backoff_trace d k 0 = [Attempt k]"
| "backoff_trace d k (Suc n) = Attempt k # Wait (backoff d k) # backoff_trace d (k + 1) n"

section \<open>Example states and environments\<close>

text \<open>Replies of the control API.\<close>

definition api_ok :: api_body where
  "api_ok = \<lparr>success = True, error_message = None, error_code = None\<rparr>"

definition api_fail :: "string \<Rightarrow> string \<Rightarrow> api_body" where
  "api_fail c m = \<lparr>success = False, error_message = Some m, error_code = Some c\<rparr>"

text \<open>
  A connected voice call with an unmuted microphone, the same with one remote audio
  element attached, and an active chat.
\<close>

definition connected_call :: Wespoke where
  "connected_call = initial\<lparr>room := Some \<lparr>remoteParticipants = []\<rparr>,
     localAudioTrack := Some \<lparr>isMuted = False\<rparr>, callState := CONNECTED,
     currentCallId := Some ''call_1'', abortController := Some False, pollInterval := True\<rparr>"

text \<open>The connected call after one successful mute, and after a second one.\<close>

definition muted_call :: Wespoke where
  "muted_call = connected_call\<lparr>localAudioTrack := Some \<lparr>isMuted = True\<rparr>,
     emitted := [MicrophoneMuted True]\<rparr>"

definition unmuted_call :: Wespoke where
  "unmuted_call = connected_call\<lparr>emitted := [MicrophoneMuted True, MicrophoneMuted False]\<rparr>"

definition voice_call :: Wespoke where
  "voice_call = connected_call\<lparr>attachedTracks := [''TR_1'']\<rparr>"

definition active_chat :: Wespoke where
  "active_chat = initial\<lparr>callState := CONNECTED, currentChatId := Some ''chat_1''\<rparr>"

text \<open>
  The configuration with the defaults of the constructor, an attempt during which nothing
  happens, and a \<open>startCall\<close> whose token request is answered with status 402.
\<close>

definition default_config :: Config where
  "default_config = mkConfig None None"

definition quiet :: attempt_env where
  "quiet = \<lparr>connectResult = None, interleaved = None\<rparr>"

definition no_credits_env :: start_env where
  "no_credits_env = \<lparr>tokenFetch = Replied 402 (api_fail ''X'' ''no credits'') [],
     attempts = (\<lambda>k. quiet), mic = MicOk, present = []\<rparr>"

definition chat_ok_env :: chat_env where
  "chat_ok_env = \<lparr>createFetch = Replied 200 api_ok ''chat_2'', nestedEnd = Replied 200 api_ok ()\<rparr>"

text \<open>
  The error of \<open>response.json()\<close> on a body that is not JSON, such as the HTML page of a
  gateway.
\<close>

definition not_json :: js_error where
  "not_json = Native ''SyntaxError'' ''Unexpected token < in JSON at position 0''"

text \<open>
  A \<open>startCall\<close> whose microphone is refused after the room has connected, a second
  \<open>startCall\<close> that goes through, and the states of the run in which the first is
  followed by a \<open>startChatSession\<close>, the disconnection of the room that the first
  \<open>startCall\<close> left behind, and the second \<open>startCall\<close>.
\<close>

definition mic_denied_env :: start_env where
  "mic_denied_env = \<lparr>tokenFetch = Replied 200 api_ok ''call_1'', attempts = (\<lambda>k. quiet),
     mic = MicDenied (Native ''NotAllowedError'' ''Permission denied''), present = []\<rparr>"

definition second_call_env :: start_env where
  "second_call_env = \<lparr>tokenFetch = Replied 200 api_ok ''call_2'', attempts = (\<lambda>k. quiet),
     mic = MicOk, present = []\<rparr>"

definition mic_error :: js_error where
  "mic_error = mkError MediaDevicesError ''Failed to access microphone'' ''MEDIA_DEVICES_ERROR'' None"

definition stale_room :: Wespoke where
  "stale_room = initial\<lparr>room := Some \<lparr>remoteParticipants = []\<rparr>, abortController := Some False,
     emitted := [StateChange CONNECTING, StateChange IDLE, ErrorEv mic_error]\<rparr>"

definition chat_beside_room :: Wespoke where
  "chat_beside_room = stale_room\<lparr>callState := CONNECTED, currentChatId := Some ''chat_2'',
     emitted := emitted stale_room @ [StateChange CONNECTING, StateChange CONNECTED, ConnectedEv]\<rparr>"

definition both_active :: Wespoke where
  "both_active = chat_beside_room\<lparr>localAudioTrack := Some \<lparr>isMuted = False\<rparr>,
     currentCallId := Some ''call_2'', pollInterval := True,
     emitted := emitted chat_beside_room
        @ [StateChange DISCONNECTED, DisconnectedEv (Some ''SERVER_SHUTDOWN''),
           StateChange CONNECTING, StateChange CONNECTED]\<rparr>"

text \<open>The errors of the two guards of \<open>startChatSession\<close>.\<close>

definition call_in_progress :: js_error where
  "call_in_progress = mkError WespokeError ''Cannot start chat while a voice call is active''
      ''CALL_IN_PROGRESS'' None"

definition chat_in_progress :: js_error where
  "chat_in_progress = mkError WespokeError ''A chat session is already in progress''
      ''CHAT_IN_PROGRESS'' None"

text \<open>An \<open>endCall\<close> while the network is down: \<open>fetch\<close> rejects.\<close>

definition fetch_failed :: js_error where
  "fetch_failed = Native ''TypeError'' ''Failed to fetch''"

definition network_down :: end_env where
  "network_down = \<lparr>endFetch = Rejected fetch_failed, disconnectThrows = None\<rparr>"

text \<open>
  \<open>startCall\<close> after the token has arrived and the room has been created; a transient
  connect error; an \<open>endCall\<close> that goes through; a connect whose first attempt fails and
  during whose first wait the page calls \<open>endCall\<close>; and a connect that succeeds at the
  third attempt.
\<close>

definition bootstrapping :: Wespoke where
  "bootstrapping = initial\<lparr>room := Some \<lparr>remoteParticipants = []\<rparr>, callState := CONNECTING,
     currentCallId := Some ''call_1'', emitted := [StateChange CONNECTING]\<rparr>"

definition timeout_error :: js_error where
  "timeout_error = Native ''Error'' ''network timeout''"

definition end_ok :: end_env where
  "end_ok = \<lparr>endFetch = Replied 200 api_ok (), disconnectThrows = None\<rparr>"

definition aborted_during_backoff :: "int \<Rightarrow> attempt_env" where
  "aborted_during_backoff k =
     (if k = 1 then \<lparr>connectResult = Some timeout_error, interleaved = Some end_ok\<rparr> else quiet)"

definition third_time_lucky :: "int \<Rightarrow> attempt_env" where
  "third_time_lucky k =
     (if k < 3 then \<lparr>connectResult = Some timeout_error, interleaved = None\<rparr> else quiet)"

definition hang_up_env :: start_env where
  "hang_up_env = \<lparr>tokenFetch = Replied 200 api_ok ''call_1'', attempts = aborted_during_backoff,
     mic = MicOk, present = []\<rparr>"

text \<open>
  Message \<open>m1\<close> in its final and in a partial version, the same two with an empty id, the
  data-channel payload of a message, and a successful poll that returns \<open>m1\<close>.
\<close>

definition hello_final :: ConversationMessage where
  "hello_final = \<lparr>msg_id = Some ''m1'', role = Some ''assistant'', content = Some ''Hello there'',
     timestamp = Some 1000, isComplete = Some True, isFirstChunk = None, isStreaming = None\<rparr>"

definition hello_partial :: ConversationMessage where
  "hello_partial = \<lparr>msg_id = Some ''m1'', role = Some ''assistant'', content = Some ''Hel'',
     timestamp = Some 900, isComplete = Some False, isFirstChunk = Some True,
     isStreaming = Some True\<rparr>"

definition conversation :: "ConversationMessage \<Rightarrow> DataMessage" where
  "conversation m = \<lparr>data_type = ''message'', data_msg = m, toolName = None, toolType = None,
     data_rest = []\<rparr>"

definition poll_reply :: "ConversationMessage list fetched" where
  "poll_reply = Replied 200 api_ok [hello_final]"

definition blank_final :: ConversationMessage where
  "blank_final = hello_final\<lparr>msg_id := Some []\<rparr>"

definition blank_partial :: ConversationMessage where
  "blank_partial = hello_partial\<lparr>msg_id := Some []\<rparr>"

text \<open>The records of a streamed chat reply.\<close>

definition no_data :: sse_data where
  "no_data = \<lparr>messageId = None, accumulatedContent = None, message_id = None,
     message_role = None, message_content = None, sse_timestamp = None, sse_toolName = None,
     sse_toolType = None, sources = None, sse_error_message = None, sse_error_code = None\<rparr>"

definition start_record :: sse_record where
  "start_record = \<lparr>eventType = ''message:start'',
     eventData = Some (no_data\<lparr>messageId := Some ''m1''\<rparr>), now = 5000\<rparr>"

definition chunk_record :: "string \<Rightarrow> sse_record" where
  "chunk_record txt = \<lparr>eventType = ''message:chunk'',
     eventData = Some (no_data\<lparr>accumulatedContent := Some txt\<rparr>), now = 5000\<rparr>"

definition complete_record :: "string option \<Rightarrow> string \<Rightarrow> sse_record" where
  "complete_record r txt = \<lparr>eventType = ''message:complete'',
     eventData = Some (no_data\<lparr>message_id := Some ''m1'', message_role := r,
       message_content := Some txt, sse_timestamp := Some 1000\<rparr>), now = 5000\<rparr>"

text \<open>A reply streamed as message \<open>m1\<close>, and a later reply streamed under the same id.\<close>

definition hello_stream :: "string option \<Rightarrow> stream_item list" where
  "hello_stream r = Record start_record
     # map Record [chunk_record ''Hel'', chunk_record ''Hello'', chunk_record ''Hello there'']
     @ [Record (complete_record r ''Hello there'')]"

definition bye_stream :: "stream_item list" where
  "bye_stream = Record start_record
     # map Record [chunk_record ''Good'', chunk_record ''Goodbye'']
     @ [Record (complete_record None ''Goodbye'')]"

text \<open>
  The same reply as the text that the reader yields, in three pieces that do not end at
  record boundaries, with a comment line first; and a \<open>JSON.parse\<close> that knows the data
  lines of this text.
\<close>

definition toy_parse :: "string \<Rightarrow> parsed" where
  "toy_parse x =
     (if x = ''{\"messageId\":\"m1\"}'' then Object (no_data\<lparr>messageId := Some ''m1''\<rparr>)
      else if x = ''{\"accumulatedContent\":\"Hel\"}''
        then Object (no_data\<lparr>accumulatedContent := Some ''Hel''\<rparr>)
      else if x = ''{\"accumulatedContent\":\"Hello\"}''
        then Object (no_data\<lparr>accumulatedContent := Some ''Hello''\<rparr>)
      else if x = ''{\"accumulatedContent\":\"Hello there\"}''
        then Object (no_data\<lparr>accumulatedContent := Some ''Hello there''\<rparr>)
      else if x = ''{\"message\":{\"id\":\"m1\",\"content\":\"Hello there\"},\"timestamp\":1000}''
        then Object (no_data\<lparr>message_id := Some ''m1'', message_content := Some ''Hello there'',
               sse_timestamp := Some 1000\<rparr>)
      else if x = ''null'' then Falsy
      else ParseError)"

definition hello_text :: "read list" where
  "hello_text =
     [Chunk ('': ping'' @ newline @ newline
             @ ''event: message:start'' @ newline
             @ ''data: {\"messageId\":\"m1\"}'' @ newline @ newline
             @ ''event: message:chunk'' @ newline
             @ ''data: {\"accumulatedContent\":\"Hel\"}'' @ newline @ newline
             @ ''event: message:chu''),
      Chunk (''nk'' @ newline
             @ ''data: {\"accumulatedContent\":\"Hello\"}'' @ newline @ newline
             @ ''event: message:chunk'' @ newline
             @ ''data: {\"accumulatedContent\":\"Hello there\"}'' @ newline @ newline),
      Chunk (''event: message:complete'' @ newline
             @ ''data: {\"message\":{\"id\":\"m1\",\"content\":\"Hello there\"},\"timestamp\":1000}''
             @ newline @ newline)]"

definition say_hi :: send_env where
  "say_hi = \<lparr>send_now = 4999, sendFetch = Replied 200 api_ok (Some hello_text),
     json_parse = toy_parse, send_clock = (\<lambda>k. 5000)\<rparr>"

definition user_hi :: ConversationMessage where
  "user_hi = \<lparr>msg_id = Some ''user-4999'', role = Some ''user'', content = Some ''hi'',
     timestamp = Some 4999, isComplete = Some True, isFirstChunk = None, isStreaming = None\<rparr>"

section \<open>Properties of toggleMute\<close>

lemma toggleMute_success:
  assumes "toggleMute f s = (Inr b, s')"
  shows "\<exists>t. localAudioTrack s = Some t \<and> b = (\<not> isMuted t)
           \<and> s' = emit (MicrophoneMuted b) (s\<lparr>localAudioTrack := Some (t\<lparr>isMuted := b\<rparr>)\<rparr>)"
  using assms
  by (auto simp: toggleMute_def Let_def split: if_splits option.splits fetched.splits)

lemma toggleMute_legacy_success:
  assumes "toggleMute_legacy f s = (Inr b, s')"
  shows "\<exists>t. localAudioTrack s = Some t \<and> b = isMuted t
           \<and> s' = emit (MicrophoneMuted (\<not> b)) (s\<lparr>localAudioTrack := Some (t\<lparr>isMuted := \<not> b\<rparr>)\<rparr>)"
  using assms
  by (auto simp: toggleMute_legacy_def Let_def split: if_splits option.splits fetched.splits)

text \<open>Two successful calls in a row on a connected call, in both copies of the class.\<close>

lemma toggle_runs:
  "toggleMute (Replied 200 api_ok ()) connected_call = (Inr True, muted_call)"
  "toggleMute (Replied 200 api_ok ()) muted_call = (Inr False, unmuted_call)"
  "toggleMute_legacy (Replied 200 api_ok ()) connected_call = (Inr False, muted_call)"
  by (simp_all add: toggleMute_def toggleMute_legacy_def connected_call_def muted_call_def
      unmuted_call_def initial_def truthy_def response_ok_def api_ok_def emit_def)

lemma muted_call_changed: "muted_call \<noteq> connected_call"
proof
  assume "muted_call = connected_call"
  then have "localAudioTrack muted_call = localAudioTrack connected_call" by simp
  then show False by (simp add: muted_call_def connected_call_def)
qed

lemma api_ok_success: "success api_ok" "response_ok 200"
  by (simp_all add: api_ok_def response_ok_def)

lemma connected_call_ready:
  "truthy (currentCallId connected_call)" "localAudioTrack connected_call \<noteq> None"
  by (simp_all add: connected_call_def initial_def truthy_def)

text \<open>
  Claim C8, amended. A successful \<open>toggleMute\<close> of the current class returns the new
  muted state, the complement of the old one; from unmuted, two successful calls return
  true and then false. A successful \<open>toggleMute\<close> of the older copy of the class returns
  the complement of the new muted state (the enabled state).
\<close>

theorem toggleMute_returns_new_muted_state:
  "(toggleMute f s = (Inr b, s') \<longrightarrow> isMuted_api s' = b \<and> b = (\<not> isMuted_api s))
   \<and> (\<not> isMuted_api s \<and> toggleMute f s = (Inr b, s') \<and> toggleMute g s' = (Inr b', s'')
        \<longrightarrow> b \<and> \<not> b')
   \<and> (toggleMute_legacy f s = (Inr b, s') \<longrightarrow> isMuted_api s' = (\<not> b) \<and> b = isMuted_api s)"
proof (intro conjI impI)
  assume a: "toggleMute f s = (Inr b, s')"
  from toggleMute_success[OF a] show "isMuted_api s' = b" "b = (\<not> isMuted_api s)"
    by (auto simp: isMuted_api_def emit_def)
next
  assume a: "\<not> isMuted_api s \<and> toggleMute f s = (Inr b, s') \<and> toggleMute g s' = (Inr b', s'')"
  then have 1: "toggleMute f s = (Inr b, s')" and 2: "toggleMute g s' = (Inr b', s'')"
    and 3: "\<not> isMuted_api s" by auto
  from toggleMute_success[OF 1] 3 have b: "b" and m: "isMuted_api s'"
    by (auto simp: isMuted_api_def emit_def)
  from toggleMute_success[OF 2] m have "\<not> b'" by (auto simp: isMuted_api_def emit_def)
  with b show "b" "\<not> b'" by auto
next
  assume a: "toggleMute_legacy f s = (Inr b, s')"
  from toggleMute_legacy_success[OF a] show "isMuted_api s' = (\<not> b)" "b = isMuted_api s"
    by (auto simp: isMuted_api_def emit_def)
qed

text \<open>
  Witness for C8: two successful calls on a connected call with an unmuted microphone,
  and one call of the older copy.
\<close>

theorem toggleMute_returns_new_muted_state_witness:
  "toggleMute (Replied 200 api_ok ()) connected_call = (Inr True, muted_call)
   \<and> toggleMute (Replied 200 api_ok ()) muted_call = (Inr False, unmuted_call)
   \<and> toggleMute_legacy (Replied 200 api_ok ()) connected_call = (Inr False, muted_call)
   \<and> \<not> isMuted_api connected_call \<and> isMuted_api muted_call \<and> \<not> isMuted_api unmuted_call"
  using toggleMute_returns_new_muted_state[of "Replied 200 api_ok ()" connected_call True
      muted_call "Replied 200 api_ok ()" False unmuted_call]
    toggleMute_returns_new_muted_state[of "Replied 200 api_ok ()" muted_call False unmuted_call]
    toggleMute_returns_new_muted_state[of "Replied 200 api_ok ()" connected_call False muted_call]
  by (simp add: toggle_runs)

text \<open>
  Counterexample to C8 as stated: on the same input the older copy returns false while
  the microphone is now muted.
\<close>

theorem toggleMute_legacy_counterexample:
  "fst (toggleMute_legacy (Replied 200 api_ok ()) connected_call) = Inr False
   \<and> isMuted_api (snd (toggleMute_legacy (Replied 200 api_ok ()) connected_call)) = True"
  by (simp add: toggleMute_legacy_def connected_call_def initial_def truthy_def response_ok_def
      api_ok_def isMuted_api_def emit_def)

lemma parseAPIError_classified: "classified (parseAPIError data st)"
  by (simp add: parseAPIError_def classified_def mkError_def Let_def)

lemma not_json_run:
  "toggleMute (awaited (NotJson 502 not_json)) connected_call = (Inl not_json, connected_call)"
  by (simp add: toggleMute_def awaited_def connected_call_def initial_def truthy_def)

text \<open>
  Claim C9, amended. With an active call and a local track: a reply to the mute request
  whose body is JSON and that is not 2xx or says \<open>success: false\<close> makes \<open>toggleMute\<close>
  throw the classified error of \<open>parseAPIError\<close>; a reply whose body is not JSON,
  whatever its status, and a request that gets no response make it throw the raw error
  of \<open>response.json()\<close> or of \<open>fetch\<close>. In all three cases the whole state is as it was:
  the track's mute flag is unchanged and nothing is emitted. Conversely, whenever
  \<open>toggleMute\<close> changes the state, the request was answered with a 2xx status and a JSON
  body saying \<open>success: true\<close>, and the change is exactly the new mute flag and the
  \<open>microphoneMuted\<close> event.
\<close>

theorem toggleMute_api_failure:
  "(truthy (currentCallId s) \<and> localAudioTrack s \<noteq> None
      \<and> (\<not> response_ok st \<or> \<not> success data)
     \<longrightarrow> toggleMute (awaited (Json st data u)) s = (Inl (parseAPIError data st), s)
          \<and> classified (parseAPIError data st))
   \<and> (truthy (currentCallId s) \<and> localAudioTrack s \<noteq> None
     \<longrightarrow> toggleMute (awaited (NotJson st e)) s = (Inl e, s)
          \<and> toggleMute (awaited (NoResponse e)) s = (Inl e, s))
   \<and> (toggleMute (awaited x) s = (r, s') \<and> s' \<noteq> s
     \<longrightarrow> (\<exists>st data u t. x = Json st data u \<and> response_ok st \<and> success data
            \<and> localAudioTrack s = Some t \<and> r = Inr (\<not> isMuted t)
            \<and> s' = emit (MicrophoneMuted (\<not> isMuted t))
                     (s\<lparr>localAudioTrack := Some (t\<lparr>isMuted := \<not> isMuted t\<rparr>)\<rparr>)))"
proof (intro conjI impI)
  assume a: "truthy (currentCallId s) \<and> localAudioTrack s \<noteq> None
      \<and> (\<not> response_ok st \<or> \<not> success data)"
  then show "toggleMute (awaited (Json st data u)) s = (Inl (parseAPIError data st), s)"
    by (auto simp: toggleMute_def awaited_def Let_def)
  show "classified (parseAPIError data st)" by (rule parseAPIError_classified)
next
  assume a: "truthy (currentCallId s) \<and> localAudioTrack s \<noteq> None"
  then show "toggleMute (awaited (NotJson st e)) s = (Inl e, s)"
    by (auto simp: toggleMute_def awaited_def Let_def)
  from a show "toggleMute (awaited (NoResponse e)) s = (Inl e, s)"
    by (auto simp: toggleMute_def awaited_def Let_def)
next
  assume a: "toggleMute (awaited x) s = (r, s') \<and> s' \<noteq> s"
  then show "\<exists>st data u t. x = Json st data u \<and> response_ok st \<and> success data
            \<and> localAudioTrack s = Some t \<and> r = Inr (\<not> isMuted t)
            \<and> s' = emit (MicrophoneMuted (\<not> isMuted t))
                     (s\<lparr>localAudioTrack := Some (t\<lparr>isMuted := \<not> isMuted t\<rparr>)\<rparr>)"
    by (cases x)
       (auto simp: toggleMute_def awaited_def Let_def split: if_splits option.splits)
qed

text \<open>
  Witness for C9: on a connected call, a JSON reply with status 500, a reply that is not
  JSON, a request without response, and a successful reply that changes the state.
\<close>

theorem toggleMute_api_failure_witness:
  "toggleMute (awaited (Json 500 (api_fail ''X'' ''boom'') ())) connected_call
     = (Inl (parseAPIError (api_fail ''X'' ''boom'') 500), connected_call)
   \<and> classified (parseAPIError (api_fail ''X'' ''boom'') 500)
   \<and> toggleMute (awaited (NotJson 500 not_json)) connected_call = (Inl not_json, connected_call)
   \<and> toggleMute (awaited (NoResponse fetch_failed)) connected_call = (Inl fetch_failed, connected_call)
   \<and> toggleMute (awaited (Json 200 api_ok ())) connected_call = (Inr True, muted_call)
   \<and> muted_call \<noteq> connected_call \<and> response_ok 200 \<and> success api_ok"
  using toggleMute_api_failure[of connected_call 500 "api_fail ''X'' ''boom''" "()" not_json
      "Json 200 api_ok ()" "Inr True" muted_call]
    toggleMute_api_failure[of connected_call 500 "api_fail ''X'' ''boom''" "()" fetch_failed
      "Json 200 api_ok ()" "Inr True" muted_call]
  by (simp add: toggle_runs muted_call_changed connected_call_ready api_ok_success response_ok_def
      awaited_def)

text \<open>
  Counterexample to C9 as stated: the reply has status 502, which is not 2xx, and an
  HTML body. \<open>response.json()\<close> is awaited before the status is tested, so the caller
  gets the \<open>SyntaxError\<close> of the parser, not a classified error.
\<close>

theorem toggleMute_unparsable_body_counterexample:
  "toggleMute (awaited (NotJson 502 not_json)) connected_call = (Inl not_json, connected_call)
   \<and> \<not> response_ok 502 \<and> \<not> classified not_json"
  by (simp add: not_json_run response_ok_def) (simp add: classified_def not_json_def)

section \<open>Properties of endCall\<close>

lemma fold_detach_fields:
  "room (fold detachTrack xs s) = room s
   \<and> localAudioTrack (fold detachTrack xs s) = localAudioTrack s
   \<and> assistantParticipant (fold detachTrack xs s) = assistantParticipant s
   \<and> callState (fold detachTrack xs s) = callState s
   \<and> currentCallId (fold detachTrack xs s) = currentCallId s
   \<and> currentChatId (fold detachTrack xs s) = currentChatId s
   \<and> abortController (fold detachTrack xs s) = abortController s
   \<and> chatAbortController (fold detachTrack xs s) = chatAbortController s
   \<and> pollInterval (fold detachTrack xs s) = pollInterval s
   \<and> seenMessageIds (fold detachTrack xs s) = seenMessageIds s
   \<and> shouldEndChatAfterStart (fold detachTrack xs s) = shouldEndChatAfterStart s
   \<and> emitted (fold detachTrack xs s) = emitted s"
  by (induction xs arbitrary: s) (simp_all add: detachTrack_def)

lemma cleanupAllTracks_eq: "cleanupAllTracks s = s\<lparr>attachedTracks := []\<rparr>"
  by (rule Wespoke.equality) (simp_all add: cleanupAllTracks_def fold_detach_fields)

text \<open>
  When the termination request is answered, whatever the answer, and the room
  disconnects, the whole clean-up runs.
\<close>

lemma endCall_reply:
  assumes "callState s \<noteq> IDLE" "truthy (currentCallId s)"
    and "endFetch env = Replied st data u" "disconnectThrows env = None"
  shows "endCall env s = (Inr (),
     setState DISCONNECTED
       ((setState DISCONNECTING s)\<lparr>room := None,
           localAudioTrack := (if room s = None then localAudioTrack s else None),
           assistantParticipant := None, attachedTracks := [], currentCallId := None,
           abortController := None, pollInterval := False, seenMessageIds := {}\<rparr>))"
proof (cases "room s")
  case None
  then show ?thesis using assms
    by (simp add: endCall_def endCall_finish_def Let_def cleanupAllTracks_eq setState_def emit_def
      stopMessagePolling_def)
next
  case (Some r)
  then show ?thesis using assms
    by (simp add: endCall_def endCall_finish_def Let_def cleanupAllTracks_eq setState_def emit_def
      stopMessagePolling_def)
qed

lemma endCall_reply_cleans:
  assumes "callState s \<noteq> IDLE" "truthy (currentCallId s)"
    and "endFetch env = Replied st data u" "disconnectThrows env = None"
  shows "\<exists>s'. endCall env s = (Inr (), s') \<and> callState s' = DISCONNECTED
           \<and> currentCallId s' = None \<and> seenMessageIds s' = {} \<and> room s' = None
           \<and> attachedTracks s' = [] \<and> assistantParticipant s' = None
           \<and> \<not> pollInterval s' \<and> abortController s' = None
           \<and> (room s \<noteq> None \<longrightarrow> localAudioTrack s' = None)"
proof (cases "room s")
  case None
  then show ?thesis using assms
    by (simp add: endCall_def endCall_finish_def Let_def cleanupAllTracks_eq setState_def emit_def
      stopMessagePolling_def)
next
  case (Some r)
  then show ?thesis using assms
    by (simp add: endCall_def endCall_finish_def Let_def cleanupAllTracks_eq setState_def emit_def
      stopMessagePolling_def)
qed

lemma endCall_nulls_controller:
  assumes "callState s \<noteq> IDLE" "truthy (currentCallId s)" "endFetch ee = Replied st data u"
  shows "abortController (snd (endCall ee s)) = None"
  using assms
  by (cases "room s"; cases "disconnectThrows ee")
     (simp_all add: endCall_def endCall_finish_def Let_def cleanupAllTracks_eq setState_def
        emit_def stopMessagePolling_def)

text \<open>
  Claim C6 at the input where the code departs from it. The termination request is
  rejected (the network is down). \<open>endCall\<close> has stopped the polling timer by then, but
  the rejection leaves the \<open>try\<close> block: the error is emitted and rethrown, the audio
  element stays attached, the microphone track and the room stay, the call id stays, and
  the state stays \<open>DISCONNECTING\<close>.
\<close>

theorem endCall_rejected_fetch_skips_cleanup:
  "endCall network_down voice_call
     = (Inl fetch_failed,
        voice_call\<lparr>callState := DISCONNECTING, pollInterval := False,
           emitted := [StateChange DISCONNECTING, ErrorEv fetch_failed]\<rparr>)
   \<and> room voice_call \<noteq> None \<and> localAudioTrack voice_call \<noteq> None
   \<and> attachedTracks voice_call = [''TR_1''] \<and> currentCallId voice_call = Some ''call_1''"
  by (simp add: endCall_def network_down_def voice_call_def connected_call_def initial_def
      truthy_def setState_def emit_def stopMessagePolling_def)

text \<open>What is left of the session after that \<open>endCall\<close>.\<close>

theorem endCall_rejected_fetch_skips_cleanup_witness:
  "fst (endCall network_down voice_call) = Inl fetch_failed
   \<and> callState (snd (endCall network_down voice_call)) = DISCONNECTING
   \<and> currentCallId (snd (endCall network_down voice_call)) = Some ''call_1''
   \<and> room (snd (endCall network_down voice_call)) \<noteq> None
   \<and> localAudioTrack (snd (endCall network_down voice_call)) \<noteq> None
   \<and> attachedTracks (snd (endCall network_down voice_call)) = [''TR_1'']"
  using endCall_rejected_fetch_skips_cleanup by simp

section \<open>Properties of connectToRoom\<close>

text \<open>One iteration of the loop, case by case.\<close>

lemma connect_abort_check:
  assumes "k \<le> m"
  shows "abortController s = Some True \<Longrightarrow>
           connectLoop m d env k s = (Inl (connection_error ''Connection aborted''), s, [])"
    and "abortController s = None \<Longrightarrow> connectLoop m d env k s = (Inl null_deref, s, [])"
  using assms by (subst connectLoop.simps, simp)+

lemma connect_success:
  assumes "k \<le> m" "abortController s = Some False" "room s \<noteq> None"
    and "connectResult (env k) = None"
  shows "connectLoop m d env k s = (Inr (), interleave (interleaved (env k)) s, [Attempt k])"
  using assms by (subst connectLoop.simps) (auto simp: Let_def)

lemma connect_auth_failure:
  assumes "k \<le> m" "abortController s = Some False" "room s \<noteq> None"
    and "connectResult (env k) = Some err" "is_auth_failure err"
  shows "connectLoop m d env k s
           = (Inl (connection_error ''Authentication failed''),
              interleave (interleaved (env k)) s, [Attempt k])"
  using assms by (subst connectLoop.simps) (auto simp: Let_def)

lemma connect_last_failure:
  assumes "abortController s = Some False" "room s \<noteq> None"
    and "connectResult (env m) = Some err" "\<not> is_auth_failure err"
  shows "connectLoop m d env m s
           = (Inl (exhausted m), interleave (interleaved (env m)) s, [Attempt m])"
  using assms by (subst connectLoop.simps) (auto simp: Let_def exhausted_def)

lemma connect_retry:
  assumes "k < m" "abortController s = Some False" "room s \<noteq> None"
    and "connectResult (env k) = Some err" "\<not> is_auth_failure err"
  shows "connectLoop m d env k s
           = (case connectLoop m d env (k + 1) (interleave (interleaved (env k)) s) of
                (r, s'', tr) \<Rightarrow> (r, s'', Attempt k # Wait (backoff d k) # tr))"
  using assms by (subst connectLoop.simps) (auto simp: Let_def backoff_def)

text \<open>
  When every attempt from \<open>k\<close> on fails with an error that is not an authentication
  failure and nothing interferes, the loop makes all attempts, waits
  \<open>baseDelay * 1.5 ^ (j - 1)\<close> after attempt \<open>j\<close>, and gives up after the last one.
\<close>

lemma connect_exhaustion:
  assumes "abortController s = Some False" "room s \<noteq> None"
    and "\<forall>j. k \<le> j \<and> j \<le> k + int n \<longrightarrow>
           (\<exists>err. connectResult (env j) = Some err \<and> \<not> is_auth_failure err)
           \<and> interleaved (env j) = None"
  shows "connectLoop (k + int n) d env k s = (Inl (exhausted (k + int n)), s, backoff_trace d k n)"
  using assms
proof (induction n arbitrary: k)
  case 0
  then obtain err where "connectResult (env k) = Some err" "\<not> is_auth_failure err"
    "interleaved (env k) = None" by force
  with 0 connect_last_failure[of s env k err d] show ?case
    by (simp add: interleave_def)
next
  case (Suc n)
  then obtain err where e: "connectResult (env k) = Some err" "\<not> is_auth_failure err"
    "interleaved (env k) = None" by force
  have "\<forall>j. k + 1 \<le> j \<and> j \<le> (k + 1) + int n \<longrightarrow>
           (\<exists>err. connectResult (env j) = Some err \<and> \<not> is_auth_failure err)
           \<and> interleaved (env j) = None"
    using Suc.prems(3) by auto
  have ih: "connectLoop (k + int (Suc n)) d env (k + 1) s
              = (Inl (exhausted (k + int (Suc n))), s, backoff_trace d (k + 1) n)"
  proof -
    have "k + int (Suc n) = k + 1 + int n" by simp
    then show ?thesis using Suc.IH[OF Suc.prems(1,2) \<open>\<forall>j. k + 1 \<le> j \<and> j \<le> (k + 1) + int n \<longrightarrow>
           (\<exists>err. connectResult (env j) = Some err \<and> \<not> is_auth_failure err)
           \<and> interleaved (env j) = None\<close>] by (simp add: add.assoc)
  qed
  have "k < k + int (Suc n)" by simp
  from connect_retry[of k "k + int (Suc n)" s env err d, OF this Suc.prems(1,2) e(1,2)] ih e(3)
  show ?case by (simp add: interleave_def)
qed

text \<open>
  When \<open>endCall\<close> runs to its clean-up while a failed attempt that is not the last one
  is pending, the next check reads a \<open>null\<close> controller.
\<close>

lemma connect_retry_after_endCall:
  assumes "k < m" "abortController s = Some False" "room s \<noteq> None"
    and "connectResult (env k) = Some err" "\<not> is_auth_failure err"
    and "interleaved (env k) = Some ee"
    and "callState s \<noteq> IDLE" "truthy (currentCallId s)" "endFetch ee = Replied st data u"
  shows "connectLoop m d env k s
           = (Inl null_deref, snd (endCall ee s), [Attempt k, Wait (backoff d k)])"
proof -
  have "abortController (interleave (interleaved (env k)) s) = None"
    using assms(6) endCall_nulls_controller[OF assms(7,8,9)] by (simp add: interleave_def)
  from connect_abort_check(2)[OF _ this, of "k + 1" m d env] assms(1)
  have "connectLoop m d env (k + 1) (interleave (interleaved (env k)) s)
          = (Inl null_deref, interleave (interleaved (env k)) s, [])" by simp
  with connect_retry[of k m s env err d, OF assms(1-5)] assms(6) show ?thesis
    by (simp add: interleave_def)
qed

lemma timeout_not_auth: "\<not> is_auth_failure timeout_error"
  by code_simp

lemma default_config_values:
  "maxRetryAttempts default_config = 3" "retryDelay default_config = 2000"
  by (simp_all add: default_config_def mkConfig_def)

text \<open>A connect that succeeds at the first attempt.\<close>

lemma connect_first_attempt:
  "room s \<noteq> None \<Longrightarrow>
   connectToRoom default_config (\<lambda>k. quiet) s
     = (Inr (), s\<lparr>abortController := Some False\<rparr>, [Attempt 1])"
  by (simp add: connectToRoom_def default_config_values connect_success quiet_def interleave_def)

text \<open>
  Claim C5 at the input where the code departs from it. The first connect fails with a
  transient error and the page calls \<open>endCall\<close> during the backoff wait. \<open>endCall\<close> aborts
  the controller and sets the field to \<open>null\<close> in the same step, so the check before the
  second attempt does not see an aborted signal: it dereferences \<open>null\<close>. The connect
  fails with a \<open>TypeError\<close> after the full wait, not with the \<open>ConnectionError\<close> that the
  loop reserves for an aborted signal.
\<close>

theorem connectToRoom_aborted_by_endCall:
  "connectToRoom default_config aborted_during_backoff bootstrapping
     = (Inl null_deref,
        initial\<lparr>callState := DISCONNECTED,
           emitted := [StateChange CONNECTING, StateChange DISCONNECTING, StateChange DISCONNECTED]\<rparr>,
        [Attempt 1, Wait 2000])
   \<and> null_deref = Native ''TypeError'' ''Cannot read properties of null''
   \<and> null_deref \<noteq> connection_error ''Connection aborted''"
proof -
  let ?s = "bootstrapping\<lparr>abortController := Some False\<rparr>"
  have "connectLoop 3 2000 aborted_during_backoff 1 ?s
          = (Inl null_deref, snd (endCall end_ok ?s), [Attempt 1, Wait (backoff 2000 1)])"
    by (rule connect_retry_after_endCall[where err = timeout_error and st = 200 and data = api_ok and u = "()"])
       (simp_all add: bootstrapping_def initial_def aborted_during_backoff_def timeout_not_auth
          end_ok_def truthy_def)
  moreover have "snd (endCall end_ok ?s) = initial\<lparr>callState := DISCONNECTED,
           emitted := [StateChange CONNECTING, StateChange DISCONNECTING, StateChange DISCONNECTED]\<rparr>"
    by (subst endCall_reply[where st = 200 and data = api_ok and u = "()"])
       (simp_all add: end_ok_def bootstrapping_def initial_def truthy_def setState_def emit_def)
  ultimately show ?thesis
    by (simp add: connectToRoom_def default_config_values bootstrapping_def initial_def
        backoff_def null_deref_def connection_error_def mkError_def)
qed

text \<open>
  The same input from the public operation: \<open>startCall\<close> from the initial state, the
  token granted, the first connect failing, \<open>endCall\<close> during the wait. The caller of
  \<open>startCall\<close> gets the \<open>TypeError\<close>.
\<close>

theorem connectToRoom_aborted_by_endCall_witness:
  "startCall default_config hang_up_env initial
     = (Inl null_deref,
        initial\<lparr>emitted := [StateChange CONNECTING, StateChange DISCONNECTING,
           StateChange DISCONNECTED, StateChange IDLE, ErrorEv null_deref]\<rparr>)"
proof -
  have s1: "createRoom [] ((setState CONNECTING initial)\<lparr>seenMessageIds := {},
              currentCallId := Some ''call_1''\<rparr>) = bootstrapping"
    by (simp add: createRoom_def setState_def emit_def initial_def bootstrapping_def)
  have "bootstrap default_config hang_up_env ((setState CONNECTING initial)\<lparr>seenMessageIds := {}\<rparr>)
          = (Inl null_deref, initial\<lparr>callState := DISCONNECTED,
           emitted := [StateChange CONNECTING, StateChange DISCONNECTING, StateChange DISCONNECTED]\<rparr>)"
    using connectToRoom_aborted_by_endCall
    by (simp add: bootstrap_def fetchToken_def hang_up_env_def response_ok_def api_ok_def s1)
  then show ?thesis
    by (simp add: startCall_def initial_def setState_def emit_def)
qed

text \<open>
  The scenario of the specification: two transient failures, then success; the waits
  add up to \<open>retryDelay * (1 + 1.5)\<close>.
\<close>

lemma connectToRoom_third_attempt:
  "connectToRoom default_config third_time_lucky bootstrapping
     = (Inr (), bootstrapping\<lparr>abortController := Some False\<rparr>,
        [Attempt 1, Wait 2000, Attempt 2, Wait 3000, Attempt 3])"
proof -
  let ?s = "bootstrapping\<lparr>abortController := Some False\<rparr>"
  have s: "abortController ?s = Some False" "room ?s \<noteq> None"
    by (simp_all add: bootstrapping_def initial_def)
  have 3: "connectLoop 3 2000 third_time_lucky 3 ?s = (Inr (), ?s, [Attempt 3])"
    using connect_success[of 3 3 ?s third_time_lucky 2000] s
    by (simp add: third_time_lucky_def quiet_def interleave_def)
  have 2: "connectLoop 3 2000 third_time_lucky 2 ?s = (Inr (), ?s, [Attempt 2, Wait 3000, Attempt 3])"
    using connect_retry[of 2 3 ?s third_time_lucky timeout_error 2000] s 3
    by (simp add: third_time_lucky_def timeout_not_auth interleave_def backoff_def)
  have 1: "connectLoop 3 2000 third_time_lucky 1 ?s
             = (Inr (), ?s, [Attempt 1, Wait 2000, Attempt 2, Wait 3000, Attempt 3])"
    using connect_retry[of 1 3 ?s third_time_lucky timeout_error 2000] s 2
    by (simp add: third_time_lucky_def timeout_not_auth interleave_def backoff_def)
  show ?thesis using 1
    by (simp add: connectToRoom_def default_config_values bootstrapping_def initial_def)
qed

section \<open>Properties of startCall\<close>

text \<open>
  The bootstrap fails exactly when the token request, the connect loop or the publishing
  of the microphone fails; the later steps do not throw.
\<close>

lemma bootstrap_failure_cases:
  "(\<exists>s2. bootstrap cfg env s = (Inl e, s2)) \<longleftrightarrow>
     fetchToken (tokenFetch env) = Inl e
     \<or> (\<exists>callId s2 tr. fetchToken (tokenFetch env) = Inr callId
           \<and> connectToRoom cfg (attempts env)
                 (createRoom (present env) (s\<lparr>currentCallId := Some callId\<rparr>)) = (Inl e, s2, tr))
     \<or> (\<exists>callId u s2 tr s3. fetchToken (tokenFetch env) = Inr callId
           \<and> connectToRoom cfg (attempts env)
                 (createRoom (present env) (s\<lparr>currentCallId := Some callId\<rparr>)) = (Inr u, s2, tr)
           \<and> publishLocalAudio (mic env) s2 = (Inl e, s3))"
proof (cases "fetchToken (tokenFetch env)")
  case (Inl e')
  then show ?thesis by (auto simp: bootstrap_def)
next
  case (Inr callId)
  obtain r s2 tr where c: "connectToRoom cfg (attempts env)
      (createRoom (present env) (s\<lparr>currentCallId := Some callId\<rparr>)) = (r, s2, tr)"
    by (cases "connectToRoom cfg (attempts env)
      (createRoom (present env) (s\<lparr>currentCallId := Some callId\<rparr>))") auto
  obtain r' s3 where p: "publishLocalAudio (mic env) s2 = (r', s3)"
    by (cases "publishLocalAudio (mic env) s2") auto
  show ?thesis using Inr c p
    by (cases r; cases r') (auto simp: bootstrap_def Let_def)
qed

lemma startCall_failure_iff:
  assumes "callState s = IDLE \<or> callState s = DISCONNECTED"
  shows "startCall cfg env s = (Inl e, s') \<longleftrightarrow>
         (\<exists>s2. bootstrap cfg env ((setState CONNECTING s)\<lparr>seenMessageIds := {}\<rparr>) = (Inl e, s2)
               \<and> s' = emit (ErrorEv e) ((setState IDLE s2)\<lparr>currentCallId := None\<rparr>))"
proof (cases "bootstrap cfg env ((setState CONNECTING s)\<lparr>seenMessageIds := {}\<rparr>)")
  case (Pair r s2)
  then show ?thesis using assms
    by (cases r) (auto simp: startCall_def)
qed

lemma after_catch:
  "getState (emit (ErrorEv e) ((setState IDLE s2)\<lparr>currentCallId := None\<rparr>)) = IDLE"
  "getCallId (emit (ErrorEv e) ((setState IDLE s2)\<lparr>currentCallId := None\<rparr>)) = None"
  "last (emitted (emit (ErrorEv e) ((setState IDLE s2)\<lparr>currentCallId := None\<rparr>))) = ErrorEv e"
  by (simp_all add: getState_def getCallId_def setState_def emit_def)

lemma bootstrap_402:
  "tokenFetch env = Replied 402 body x \<Longrightarrow>
   bootstrap cfg env s =
     (Inl (mkError InsufficientCreditsError
             (or_default (error_message body) ''Unknown API error'')
             ''INSUFFICIENT_CREDITS'' (Some 402)), s)"
  by (simp add: bootstrap_def fetchToken_def response_ok_def parseAPIError_def)

text \<open>The run of the scenario with the 402 reply.\<close>

lemma no_credits_run:
  "startCall default_config no_credits_env initial
     = (Inl (mkError InsufficientCreditsError ''no credits'' ''INSUFFICIENT_CREDITS'' (Some 402)),
        initial\<lparr>emitted := [StateChange CONNECTING, StateChange IDLE,
           ErrorEv (mkError InsufficientCreditsError ''no credits'' ''INSUFFICIENT_CREDITS'' (Some 402))]\<rparr>)"
  by (simp add: startCall_def bootstrap_def fetchToken_def no_credits_env_def api_fail_def
      response_ok_def parseAPIError_def or_default_def initial_def setState_def emit_def)

text \<open>
  Claim C3. \<open>startCall\<close> is invoked in a state that passes its guard. Whatever step of
  the bootstrap throws (the token request, the connect loop, the microphone), the same
  error is returned to the caller, the state is \<open>IDLE\<close> and \<open>getCallId\<close> is null; the
  error is also the last event emitted. In particular a token reply with status 402 is
  rejected with an \<open>InsufficientCreditsError\<close> carrying the server's message.
\<close>

theorem startCall_failure_resets:
  assumes "callState s = IDLE \<or> callState s = DISCONNECTED"
  shows "(bootstrap cfg env ((setState CONNECTING s)\<lparr>seenMessageIds := {}\<rparr>) = (Inl e, s2)
            \<longrightarrow> (\<exists>s'. startCall cfg env s = (Inl e, s') \<and> getState s' = IDLE
                       \<and> getCallId s' = None))
       \<and> (startCall cfg env s = (Inl e, s')
            \<longrightarrow> getState s' = IDLE \<and> getCallId s' = None \<and> last (emitted s') = ErrorEv e)
       \<and> (tokenFetch env = Replied 402 body x
            \<longrightarrow> (\<exists>s'. startCall cfg env s =
                    (Inl (mkError InsufficientCreditsError
                            (or_default (error_message body) ''Unknown API error'')
                            ''INSUFFICIENT_CREDITS'' (Some 402)), s')
                  \<and> getState s' = IDLE \<and> getCallId s' = None))"
proof (intro conjI impI)
  assume "bootstrap cfg env ((setState CONNECTING s)\<lparr>seenMessageIds := {}\<rparr>) = (Inl e, s2)"
  then show "\<exists>s'. startCall cfg env s = (Inl e, s') \<and> getState s' = IDLE \<and> getCallId s' = None"
    using startCall_failure_iff[OF assms] after_catch by blast
next
  assume "startCall cfg env s = (Inl e, s')"
  then obtain s2 where "s' = emit (ErrorEv e) ((setState IDLE s2)\<lparr>currentCallId := None\<rparr>)"
    using startCall_failure_iff[OF assms] by blast
  then show "getState s' = IDLE" "getCallId s' = None" "last (emitted s') = ErrorEv e"
    by (simp_all only: after_catch)
next
  assume "tokenFetch env = Replied 402 body x"
  from bootstrap_402[OF this]
  show "\<exists>s'. startCall cfg env s =
              (Inl (mkError InsufficientCreditsError
                      (or_default (error_message body) ''Unknown API error'')
                      ''INSUFFICIENT_CREDITS'' (Some 402)), s')
            \<and> getState s' = IDLE \<and> getCallId s' = None"
    using startCall_failure_iff[OF assms] after_catch by blast
qed

text \<open>
  Witness for C3: the scenario of the specification, a 402 reply with
  \<open>{success: false, error: {code: "X", message: "no credits"}}\<close>.
\<close>

theorem startCall_failure_resets_witness:
  "startCall default_config no_credits_env initial
     = (Inl (mkError InsufficientCreditsError ''no credits'' ''INSUFFICIENT_CREDITS'' (Some 402)),
        initial\<lparr>emitted := [StateChange CONNECTING, StateChange IDLE,
           ErrorEv (mkError InsufficientCreditsError ''no credits'' ''INSUFFICIENT_CREDITS'' (Some 402))]\<rparr>)
   \<and> getState (snd (startCall default_config no_credits_env initial)) = IDLE
   \<and> getCallId (snd (startCall default_config no_credits_env initial)) = None
   \<and> last (emitted (snd (startCall default_config no_credits_env initial)))
       = ErrorEv (mkError InsufficientCreditsError ''no credits'' ''INSUFFICIENT_CREDITS'' (Some 402))"
proof -
  let ?e = "mkError InsufficientCreditsError ''no credits'' ''INSUFFICIENT_CREDITS'' (Some 402)"
  let ?s' = "initial\<lparr>emitted := [StateChange CONNECTING, StateChange IDLE, ErrorEv ?e]\<rparr>"
  have g: "callState initial = IDLE \<or> callState initial = DISCONNECTED"
    by (simp add: initial_def)
  have t: "tokenFetch no_credits_env = Replied 402 (api_fail ''X'' ''no credits'') []"
    by (simp add: no_credits_env_def)
  have b: "bootstrap default_config no_credits_env
             ((setState CONNECTING initial)\<lparr>seenMessageIds := {}\<rparr>)
           = (Inl ?e, (setState CONNECTING initial)\<lparr>seenMessageIds := {}\<rparr>)"
    using bootstrap_402[OF t] by (simp add: api_fail_def or_default_def truthy_def)
  have r: "startCall default_config no_credits_env initial = (Inl ?e, ?s')"
    by (rule no_credits_run)
  from startCall_failure_resets[OF g, of default_config no_credits_env ?e
      "(setState CONNECTING initial)\<lparr>seenMessageIds := {}\<rparr>" ?s'
      "api_fail ''X'' ''no credits''" "[]"] b r t
  have "getState ?s' = IDLE \<and> getCallId ?s' = None \<and> last (emitted ?s') = ErrorEv ?e"
    by blast
  with r show ?thesis by simp
qed

section \<open>Properties of startChatSession\<close>

lemma callId_endChat: "currentCallId (snd (endChatSession f s)) = currentCallId s"
  by (auto simp: endChatSession_def Let_def setState_def emit_def split: fetched.splits)

lemma callId_catch: "currentCallId (snd (startChat_catch e s)) = currentCallId s"
  by (auto simp: startChat_catch_def setState_def emit_def)

lemma callId_resume: "currentCallId (snd (startChatSession_resume env s)) = currentCallId s"
proof (cases "createFetch env")
  case (Rejected e)
  then show ?thesis using callId_catch[of e s]
    by (auto simp: startChatSession_resume_def split: prod.splits)
next
  case (Replied st data chatId)
  then show ?thesis
    using callId_catch[of "parseAPIError data st" s]
      callId_endChat[of "nestedEnd env" "s\<lparr>currentChatId := Some chatId\<rparr>"]
      callId_catch[of _ "snd (endChatSession (nestedEnd env) (s\<lparr>currentChatId := Some chatId\<rparr>))"]
    by (auto simp: startChatSession_resume_def Let_def setState_def emit_def
        split: prod.splits sum.splits) (metis snd_conv)+
qed

lemma begin_callId:
  "startChatSession_begin s = Inr s1 \<Longrightarrow> \<not> truthy (currentCallId s1)"
  by (auto simp: startChatSession_begin_def setState_def emit_def split: if_splits)

text \<open>
  The guards of \<open>startChatSession\<close>. When no chat id is set and a call id is set or the
  state is neither \<open>IDLE\<close> nor \<open>DISCONNECTED\<close>, it fails with \<open>CALL_IN_PROGRESS\<close> and the
  state is unchanged. When a chat id is set the first guard wins: it fails with
  \<open>CHAT_IN_PROGRESS\<close>, whatever the call state, and the state is unchanged.
  \<open>startChatSession\<close> itself never leads from a state where not both ids are set to one
  where both are.
\<close>

lemma startChatSession_fails_fast:
  "(\<not> truthy (currentChatId s)
      \<and> (truthy (currentCallId s) \<or> (callState s \<noteq> IDLE \<and> callState s \<noteq> DISCONNECTED))
     \<longrightarrow> startChatSession env s = (Inl call_in_progress, s))
   \<and> (truthy (currentChatId s) \<longrightarrow> startChatSession env s = (Inl chat_in_progress, s))
   \<and> (\<not> (truthy (currentCallId s) \<and> truthy (currentChatId s))
     \<longrightarrow> \<not> (truthy (currentCallId (snd (startChatSession env s)))
            \<and> truthy (currentChatId (snd (startChatSession env s)))))"
proof (intro conjI impI)
  assume "\<not> truthy (currentChatId s)
      \<and> (truthy (currentCallId s) \<or> (callState s \<noteq> IDLE \<and> callState s \<noteq> DISCONNECTED))"
  then show "startChatSession env s = (Inl call_in_progress, s)"
    by (auto simp: startChatSession_def startChatSession_begin_def call_in_progress_def)
next
  assume "truthy (currentChatId s)"
  then show "startChatSession env s = (Inl chat_in_progress, s)"
    by (auto simp: startChatSession_def startChatSession_begin_def chat_in_progress_def)
next
  assume a: "\<not> (truthy (currentCallId s) \<and> truthy (currentChatId s))"
  show "\<not> (truthy (currentCallId (snd (startChatSession env s)))
            \<and> truthy (currentChatId (snd (startChatSession env s))))"
  proof (cases "startChatSession_begin s")
    case (Inl e)
    then show ?thesis using a by (simp add: startChatSession_def)
  next
    case (Inr s1)
    then show ?thesis using begin_callId[OF Inr] callId_resume[of env s1]
      by (simp add: startChatSession_def)
  qed
qed

text \<open>The guards on a connected voice call, on an active chat, and on the initial state.\<close>

lemma startChatSession_fails_fast_examples:
  "startChatSession chat_ok_env voice_call = (Inl call_in_progress, voice_call)
   \<and> startChatSession chat_ok_env active_chat = (Inl chat_in_progress, active_chat)
   \<and> \<not> (truthy (currentCallId (snd (startChatSession chat_ok_env initial)))
            \<and> truthy (currentChatId (snd (startChatSession chat_ok_env initial))))"
  using startChatSession_fails_fast[of voice_call chat_ok_env]
    startChatSession_fails_fast[of active_chat chat_ok_env]
    startChatSession_fails_fast[of initial chat_ok_env]
  by (simp add: voice_call_def connected_call_def active_chat_def initial_def truthy_def)

text \<open>The three operations of the run in which a room outlives its call.\<close>

lemma mic_denied_run:
  "startCall default_config mic_denied_env initial = (Inl mic_error, stale_room)"
  by (simp add: startCall_def bootstrap_def fetchToken_def mic_denied_env_def api_ok_def
      response_ok_def createRoom_def connect_first_attempt publishLocalAudio_def mic_error_def
      stale_room_def initial_def setState_def emit_def)

lemma chat_beside_room_run:
  "startChatSession chat_ok_env stale_room = (Inr (), chat_beside_room)"
  by (simp add: startChatSession_def startChatSession_begin_def startChatSession_resume_def
      chat_ok_env_def api_ok_def response_ok_def stale_room_def chat_beside_room_def initial_def
      truthy_def setState_def emit_def Let_def)

lemma second_call_run:
  "startCall default_config second_call_env
     (onRoomDisconnected (Some ''SERVER_SHUTDOWN'') chat_beside_room) = (Inr (), both_active)"
  by (simp add: startCall_def bootstrap_def fetchToken_def second_call_env_def api_ok_def
      response_ok_def createRoom_def connect_first_attempt publishLocalAudio_def
      onRoomDisconnected_def stopMessagePolling_def startMessagePolling_def
      checkExistingParticipants_def both_active_def chat_beside_room_def
      stale_room_def initial_def setState_def emit_def)

text \<open>
  Claim C4 at the input where the code departs from it. The fail-fast part holds, as
  shown above. The exclusion of voice and chat rests on the shared call state, which
  \<open>startCall\<close> tests without looking at the chat id, and which the \<open>Disconnected\<close> handler
  of any room the class has created may set. A \<open>startCall\<close> whose microphone is refused
  throws after the room has connected; its \<open>catch\<close> block resets state and call id and
  leaves the room and its handlers in place. A \<open>startChatSession\<close> then succeeds. When
  that room disconnects, its handler sets the state to \<open>DISCONNECTED\<close> while the chat id
  is still set, so the next \<open>startCall\<close> passes its guard and goes through: a call id
  and a chat id are set together, in state \<open>CONNECTED\<close>.
\<close>

theorem voice_and_chat_both_active:
  "startCall default_config mic_denied_env initial = (Inl mic_error, stale_room)
   \<and> room stale_room \<noteq> None \<and> getState stale_room = IDLE \<and> getCallId stale_room = None
   \<and> startChatSession chat_ok_env stale_room = (Inr (), chat_beside_room)
   \<and> getState (onRoomDisconnected (Some ''SERVER_SHUTDOWN'') chat_beside_room) = DISCONNECTED
   \<and> getChatId (onRoomDisconnected (Some ''SERVER_SHUTDOWN'') chat_beside_room) = Some ''chat_2''
   \<and> startCall default_config second_call_env
        (onRoomDisconnected (Some ''SERVER_SHUTDOWN'') chat_beside_room) = (Inr (), both_active)
   \<and> getCallId both_active = Some ''call_2'' \<and> getChatId both_active = Some ''chat_2''
   \<and> getState both_active = CONNECTED"
  by (simp add: mic_denied_run chat_beside_room_run second_call_run)
     (simp add: both_active_def chat_beside_room_def stale_room_def initial_def getState_def
        getCallId_def getChatId_def onRoomDisconnected_def stopMessagePolling_def setState_def
        emit_def)

text \<open>The same run composed from the initial state.\<close>

theorem voice_and_chat_both_active_witness:
  "getCallId (snd (startCall default_config second_call_env
       (onRoomDisconnected (Some ''SERVER_SHUTDOWN'')
          (snd (startChatSession chat_ok_env
             (snd (startCall default_config mic_denied_env initial))))))) = Some ''call_2''
   \<and> getChatId (snd (startCall default_config second_call_env
       (onRoomDisconnected (Some ''SERVER_SHUTDOWN'')
          (snd (startChatSession chat_ok_env
             (snd (startCall default_config mic_denied_env initial))))))) = Some ''chat_2''"
  using voice_and_chat_both_active by simp

section \<open>Properties of message delivery in call mode\<close>

lemma messages_append: "messages (xs @ ys) = messages xs @ messages ys"
  by (induction xs rule: messages.induct) auto

lemma messages_with_append:
  "messages_with i (xs @ ys) = messages_with i xs @ messages_with i ys"
  by (simp add: messages_with_def messages_append)

lemma emitted_since_append: "emitted s' = emitted s @ es \<Longrightarrow> emitted_since s s' = es"
  by (simp add: emitted_since_def)

lemma push_complete:
  assumes "is_conversation d" "truthy_bool (isComplete (data_msg d))"
  shows "handleDataChannelMessage (Decoded d) s
           = (if truthy (msg_id (data_msg d))
              then seen_add (msg_id (data_msg d)) (emit (MessageEv (data_msg d)) s)
              else emit (MessageEv (data_msg d)) s)"
  using assms by (auto simp: handleDataChannelMessage_def is_conversation_def Let_def)

lemma push_suppressed:
  assumes "is_conversation d" "truthy (msg_id (data_msg d))" "seen_has (msg_id (data_msg d)) s"
    "\<not> truthy_bool (isComplete (data_msg d))"
  shows "handleDataChannelMessage (Decoded d) s = s"
  using assms by (auto simp: handleDataChannelMessage_def is_conversation_def Let_def)

lemma push_without_id:
  assumes "is_conversation d" "\<not> truthy (msg_id (data_msg d))"
  shows "handleDataChannelMessage (Decoded d) s = emit (MessageEv (data_msg d)) s"
  using assms by (auto simp: handleDataChannelMessage_def is_conversation_def Let_def)

text \<open>One push: the ledger only grows, and a message with a seen id is emitted only if complete.\<close>

lemma push_step:
  "seenMessageIds s \<subseteq> seenMessageIds (handleDataChannelMessage p s)
   \<and> callState (handleDataChannelMessage p s) = callState s
   \<and> currentCallId (handleDataChannelMessage p s) = currentCallId s
   \<and> (\<exists>es. emitted (handleDataChannelMessage p s) = emitted s @ es
          \<and> (i \<noteq> [] \<longrightarrow> i \<in> seenMessageIds s \<longrightarrow>
               (\<forall>m \<in> set (messages_with i es). truthy_bool (isComplete m))))"
proof (cases p)
  case Malformed
  then show ?thesis by (simp add: handleDataChannelMessage_def messages_with_def)
next
  case (Decoded d)
  show ?thesis
  proof (cases "is_conversation d")
    case True
    then show ?thesis using Decoded
      by (auto simp: handleDataChannelMessage_def is_conversation_def Let_def emit_def
          seen_add_def seen_has_def truthy_def messages_with_def split: option.splits)
  next
    case False
    then show ?thesis using Decoded
      by (auto simp: handleDataChannelMessage_def is_conversation_def Let_def emit_def
          messages_with_def)
  qed
qed

lemma push_fold:
  "seenMessageIds s \<subseteq> seenMessageIds (fold handleDataChannelMessage ps s)
   \<and> (\<exists>es. emitted (fold handleDataChannelMessage ps s) = emitted s @ es
          \<and> (i \<noteq> [] \<longrightarrow> i \<in> seenMessageIds s \<longrightarrow>
               (\<forall>m \<in> set (messages_with i es). truthy_bool (isComplete m))))"
proof (induction ps arbitrary: s)
  case Nil
  then show ?case by (simp add: messages_with_def)
next
  case (Cons p ps)
  let ?s1 = "handleDataChannelMessage p s"
  from push_step[of s p i] obtain es1 where
    1: "seenMessageIds s \<subseteq> seenMessageIds ?s1" "emitted ?s1 = emitted s @ es1"
      "i \<noteq> [] \<longrightarrow> i \<in> seenMessageIds s \<longrightarrow> (\<forall>m \<in> set (messages_with i es1). truthy_bool (isComplete m))"
    by blast
  from Cons.IH[of ?s1] obtain es2 where
    2: "seenMessageIds ?s1 \<subseteq> seenMessageIds (fold handleDataChannelMessage ps ?s1)"
      "emitted (fold handleDataChannelMessage ps ?s1) = emitted ?s1 @ es2"
      "i \<noteq> [] \<longrightarrow> i \<in> seenMessageIds ?s1 \<longrightarrow> (\<forall>m \<in> set (messages_with i es2). truthy_bool (isComplete m))"
    by blast
  have "emitted (fold handleDataChannelMessage (p # ps) s) = emitted s @ (es1 @ es2)"
    using 1(2) 2(2) by simp
  moreover have "i \<noteq> [] \<longrightarrow> i \<in> seenMessageIds s \<longrightarrow>
      (\<forall>m \<in> set (messages_with i (es1 @ es2)). truthy_bool (isComplete m))"
    using 1(1,3) 2(3) by (auto simp: messages_with_append)
  moreover have "seenMessageIds s \<subseteq> seenMessageIds (fold handleDataChannelMessage (p # ps) s)"
    using 1(1) 2(1) by auto
  ultimately show ?case by blast
qed

lemma push_final:
  "handleDataChannelMessage (Decoded (conversation hello_final)) s
     = (emit (MessageEv hello_final) s)\<lparr>seenMessageIds := insert ''m1'' (seenMessageIds s)\<rparr>"
  by (simp add: handleDataChannelMessage_def conversation_def hello_final_def truthy_def
      truthy_bool_def seen_add_def seen_has_def emit_def Let_def)

text \<open>
  Claim C2, amended to non-empty ids. Let \<open>d\<close> be a conversation payload of the data
  channel whose id \<open>i\<close> is not empty. If \<open>d\<close> is incomplete and \<open>i\<close> is already in the
  ledger, handling it changes nothing: it is not emitted. If \<open>d\<close> is complete, it is
  emitted whatever the ledger holds, and \<open>i\<close> is in the ledger afterwards; so when \<open>d\<close>
  arrives after any payloads \<open>ps\<close>, the last message emitted is \<open>d\<close> itself, and among the
  messages emitted for any later payloads \<open>qs\<close> those with id \<open>i\<close> are all complete.
\<close>

theorem push_dedup:
  assumes "is_conversation d" "msg_id (data_msg d) = Some i" "i \<noteq> []"
  shows "(i \<in> seenMessageIds s \<and> \<not> truthy_bool (isComplete (data_msg d))
            \<longrightarrow> handleDataChannelMessage (Decoded d) s = s)
       \<and> (truthy_bool (isComplete (data_msg d))
            \<longrightarrow> emitted (handleDataChannelMessage (Decoded d) s) = emitted s @ [MessageEv (data_msg d)]
              \<and> i \<in> seenMessageIds (handleDataChannelMessage (Decoded d) s)
              \<and> last (messages (emitted (fold handleDataChannelMessage (ps @ [Decoded d]) s)))
                  = data_msg d
              \<and> (\<forall>m \<in> set (messages_with i
                     (emitted_since (fold handleDataChannelMessage (ps @ [Decoded d]) s)
                        (fold handleDataChannelMessage (ps @ [Decoded d] @ qs) s))).
                    truthy_bool (isComplete m)))"
proof (intro conjI impI)
  assume "i \<in> seenMessageIds s \<and> \<not> truthy_bool (isComplete (data_msg d))"
  then show "handleDataChannelMessage (Decoded d) s = s"
    using assms push_suppressed[of d s] by (simp add: truthy_def seen_has_def)
next
  assume c: "truthy_bool (isComplete (data_msg d))"
  have step: "\<And>t. handleDataChannelMessage (Decoded d) t
                 = seen_add (Some i) (emit (MessageEv (data_msg d)) t)"
    using push_complete[OF assms(1) c] assms(2,3) by (simp add: truthy_def)
  show "emitted (handleDataChannelMessage (Decoded d) s) = emitted s @ [MessageEv (data_msg d)]"
    by (simp add: step seen_add_def emit_def)
  show "i \<in> seenMessageIds (handleDataChannelMessage (Decoded d) s)"
    by (simp add: step seen_add_def emit_def)
  let ?t = "fold handleDataChannelMessage (ps @ [Decoded d]) s"
  have t: "?t = seen_add (Some i) (emit (MessageEv (data_msg d)) (fold handleDataChannelMessage ps s))"
    by (simp add: step)
  show "last (messages (emitted ?t)) = data_msg d"
    by (simp add: step seen_add_def emit_def messages_append)
  have seen: "i \<in> seenMessageIds ?t" by (simp add: step seen_add_def emit_def)
  from push_fold[of ?t qs i] obtain es where
    es: "emitted (fold handleDataChannelMessage qs ?t) = emitted ?t @ es"
      "\<forall>m \<in> set (messages_with i es). truthy_bool (isComplete m)"
    using seen assms(3) by blast
  have "fold handleDataChannelMessage (ps @ [Decoded d] @ qs) s = fold handleDataChannelMessage qs ?t"
    by simp
  then have "emitted_since ?t (fold handleDataChannelMessage (ps @ [Decoded d] @ qs) s) = es"
    using es(1) by (simp add: emitted_since_def)
  then show "\<forall>m \<in> set (messages_with i
                     (emitted_since ?t (fold handleDataChannelMessage (ps @ [Decoded d] @ qs) s))).
                    truthy_bool (isComplete m)"
    using es(2) by simp
qed

text \<open>
  Witness for C2: the final version of message \<open>m1\<close> marks the id, a partial version
  that follows is dropped, and a final version that follows a partial one is the last
  message emitted.
\<close>

theorem push_dedup_witness:
  "handleDataChannelMessage (Decoded (conversation hello_partial))
       (handleDataChannelMessage (Decoded (conversation hello_final)) initial)
     = handleDataChannelMessage (Decoded (conversation hello_final)) initial
   \<and> emitted (handleDataChannelMessage (Decoded (conversation hello_final)) initial)
       = [MessageEv hello_final]
   \<and> last (messages (emitted (fold handleDataChannelMessage
         ([Decoded (conversation hello_partial)] @ [Decoded (conversation hello_final)]) initial)))
       = hello_final"
  using push_dedup[of "conversation hello_partial" "''m1''"
      "handleDataChannelMessage (Decoded (conversation hello_final)) initial"]
    push_dedup[of "conversation hello_final" "''m1''" initial "[Decoded (conversation hello_partial)]"]
  by (simp add: is_conversation_def conversation_def hello_final_def hello_partial_def
      truthy_bool_def push_final[unfolded conversation_def hello_final_def] initial_def emit_def)

text \<open>
  Counterexample to C2 as stated: the guards \<open>data.id && ...\<close> are false for the empty
  id, so a complete message with id \<open>""\<close> is emitted without being put into the ledger,
  and an incomplete message with the same id that follows is emitted after it.
\<close>

theorem push_dedup_empty_id_counterexample:
  "seenMessageIds (handleDataChannelMessage (Decoded (conversation blank_final)) initial) = {}
   \<and> messages (emitted (fold handleDataChannelMessage
        [Decoded (conversation blank_final), Decoded (conversation blank_partial)] initial))
      = [blank_final, blank_partial]"
  by (simp add: handleDataChannelMessage_def conversation_def blank_final_def blank_partial_def
      hello_final_def hello_partial_def truthy_def truthy_bool_def seen_add_def seen_has_def
      emit_def Let_def initial_def)

lemma emitIfUnseen_step:
  assumes "i \<noteq> []"
  shows "callState (emitIfUnseen m s) = callState s
     \<and> (\<exists>es. emitted (emitIfUnseen m s) = emitted s @ es
          \<and> messages_with i es = (if msg_id m = Some i \<and> i \<notin> seenMessageIds s then [m] else [])
          \<and> (i \<in> seenMessageIds (emitIfUnseen m s)
                \<longleftrightarrow> i \<in> seenMessageIds s \<or> msg_id m = Some i))"
  using assms
  by (cases "msg_id m")
     (auto simp: emitIfUnseen_def emit_def seen_add_def seen_has_def truthy_def messages_with_def)

lemma emitUnseen_emits:
  assumes "i \<noteq> []"
  shows "\<exists>es. emitted (emitUnseen ms s) = emitted s @ es \<and> messages_with i es = polled i ms s"
proof (induction ms arbitrary: s)
  case Nil
  then show ?case by (simp add: polled_def messages_with_def)
next
  case (Cons m ms)
  let ?s1 = "emitIfUnseen m s"
  from emitIfUnseen_step[OF assms, of m s] obtain es1 where
    1: "emitted ?s1 = emitted s @ es1"
      "messages_with i es1 = (if msg_id m = Some i \<and> i \<notin> seenMessageIds s then [m] else [])"
      "i \<in> seenMessageIds ?s1 \<longleftrightarrow> i \<in> seenMessageIds s \<or> msg_id m = Some i"
    by blast
  from Cons.IH[of ?s1] obtain es2 where
    2: "emitted (emitUnseen ms ?s1) = emitted ?s1 @ es2" "messages_with i es2 = polled i ms ?s1"
    by blast
  have "emitted (emitUnseen (m # ms) s) = emitted s @ (es1 @ es2)"
    using 1(1) 2(1) by simp
  moreover have "messages_with i (es1 @ es2) = polled i (m # ms) s"
    using 1(2,3) 2(2) by (auto simp: messages_with_append polled_def)
  ultimately show ?case by blast
qed

lemma pollTick_emits:
  assumes "i \<noteq> []"
  shows "\<exists>es. emitted (pollTick f s) = emitted s @ es
          \<and> seenMessageIds s \<subseteq> seenMessageIds (pollTick f s)
          \<and> (i \<in> seenMessageIds s \<longrightarrow> messages_with i es = [])
          \<and> (\<forall>st body ms. f = Replied st body ms \<and> response_ok st \<and> success body
                \<and> truthy (currentCallId s) \<and> callState s = CONNECTED
               \<longrightarrow> messages_with i es = polled i ms s)"
proof -
  have mono: "\<And>ms t. seenMessageIds t \<subseteq> seenMessageIds (emitUnseen ms t)"
  proof -
    fix ms t show "seenMessageIds t \<subseteq> seenMessageIds (emitUnseen ms t)"
    proof (induction ms arbitrary: t)
      case Nil then show ?case by simp
    next
      case (Cons m ms)
      have "seenMessageIds t \<subseteq> seenMessageIds (emitIfUnseen m t)"
        by (cases "msg_id m") (auto simp: emitIfUnseen_def emit_def seen_add_def)
      with Cons[of "emitIfUnseen m t"] show ?case by auto
    qed
  qed
  show ?thesis
  proof (cases "truthy (currentCallId s) \<and> callState s = CONNECTED")
    case False
    then show ?thesis by (auto simp: pollTick_def messages_with_def)
  next
    case True
    show ?thesis
    proof (cases "getMessages f s")
      case (Inl e)
      then show ?thesis using True
        by (auto simp: pollTick_def messages_with_def getMessages_def split: fetched.splits if_splits)
    next
      case (Inr ms)
      from emitUnseen_emits[OF assms, of ms s] obtain es where
        es: "emitted (emitUnseen ms s) = emitted s @ es" "messages_with i es = polled i ms s"
        by blast
      have "pollTick f s = emitUnseen ms s" using True Inr by (simp add: pollTick_def)
      moreover have "\<And>st body ms'. f = Replied st body ms' \<Longrightarrow> response_ok st \<Longrightarrow> success body
          \<Longrightarrow> ms' = ms"
        using Inr True by (auto simp: getMessages_def)
      ultimately show ?thesis using es mono[of s ms]
        by (auto simp: polled_def)
    qed
  qed
qed

lemma poll_connected:
  "pollTick poll_reply connected_call
     = connected_call\<lparr>seenMessageIds := {''m1''}, emitted := [MessageEv hello_final]\<rparr>"
  by (simp add: pollTick_def poll_reply_def getMessages_def connected_call_def initial_def
      truthy_def response_ok_def api_ok_def emitIfUnseen_def seen_has_def seen_add_def emit_def
      hello_final_def)

text \<open>
  Claim C1, amended. A complete conversation payload \<open>d\<close> with a non-empty id \<open>i\<close> comes
  in on the data channel, and a polling tick runs with fetch outcome \<open>f\<close>. When the push
  comes first, exactly one message with id \<open>i\<close> is emitted over both steps, the pushed
  one: the poll adds none. When the poll comes first and \<open>i\<close> is already in the ledger,
  again only the pushed one is emitted. When the poll comes first, \<open>i\<close> is not yet in the
  ledger, the call is connected and the fetch succeeds with a list whose first message
  with id \<open>i\<close> is \<open>m\<close>, the poll emits \<open>m\<close> and the push then emits \<open>d\<close> again: two
  emissions, the later one bearing the pushed content.
\<close>

theorem dual_path_delivery:
  assumes "is_conversation d" "msg_id (data_msg d) = Some i" "i \<noteq> []"
    and "truthy_bool (isComplete (data_msg d))"
  shows "messages_with i (emitted_since s (pollTick f (handleDataChannelMessage (Decoded d) s)))
           = [data_msg d]
       \<and> (i \<in> seenMessageIds s \<longrightarrow>
            messages_with i (emitted_since s (handleDataChannelMessage (Decoded d) (pollTick f s)))
              = [data_msg d])
       \<and> (i \<notin> seenMessageIds s \<and> truthy (currentCallId s) \<and> callState s = CONNECTED
            \<and> f = Replied st body ms \<and> response_ok st \<and> success body
            \<and> find (\<lambda>m. msg_id m = Some i) ms = Some m \<longrightarrow>
            messages_with i (emitted_since s (handleDataChannelMessage (Decoded d) (pollTick f s)))
              = [m, data_msg d])"
proof -
  have step: "\<And>t. handleDataChannelMessage (Decoded d) t
                 = seen_add (Some i) (emit (MessageEv (data_msg d)) t)"
    using push_complete[OF assms(1,4)] assms(2,3) by (simp add: truthy_def)
  have own: "messages_with i [MessageEv (data_msg d)] = [data_msg d]"
    using assms(2) by (simp add: messages_with_def)
  have push_first: "messages_with i (emitted_since s (pollTick f (handleDataChannelMessage (Decoded d) s)))
           = [data_msg d]"
  proof -
    let ?t = "handleDataChannelMessage (Decoded d) s"
    have t: "emitted ?t = emitted s @ [MessageEv (data_msg d)]" "i \<in> seenMessageIds ?t"
      by (simp_all add: step seen_add_def emit_def)
    from pollTick_emits[OF assms(3), of f ?t] t(2) obtain es where
      "emitted (pollTick f ?t) = emitted ?t @ es" "messages_with i es = []" by blast
    then have "emitted (pollTick f ?t) = emitted s @ ([MessageEv (data_msg d)] @ es)"
      using t(1) by simp
    from emitted_since_append[OF this] \<open>messages_with i es = []\<close> own
      messages_with_append[of i "[MessageEv (data_msg d)]" es]
    show ?thesis by simp
  qed
  have poll_first: "\<And>es. emitted (pollTick f s) = emitted s @ es \<Longrightarrow>
      messages_with i (emitted_since s (handleDataChannelMessage (Decoded d) (pollTick f s)))
        = messages_with i es @ [data_msg d]"
  proof -
    fix es assume "emitted (pollTick f s) = emitted s @ es"
    then have "emitted (handleDataChannelMessage (Decoded d) (pollTick f s))
                 = emitted s @ (es @ [MessageEv (data_msg d)])"
      by (simp add: step seen_add_def emit_def)
    from emitted_since_append[OF this] own
    show "messages_with i (emitted_since s (handleDataChannelMessage (Decoded d) (pollTick f s)))
        = messages_with i es @ [data_msg d]"
      by (simp add: messages_with_append)
  qed
  from pollTick_emits[OF assms(3), of f s] obtain es where
    es: "emitted (pollTick f s) = emitted s @ es"
      "i \<in> seenMessageIds s \<longrightarrow> messages_with i es = []"
      "\<forall>st body ms. f = Replied st body ms \<and> response_ok st \<and> success body
                \<and> truthy (currentCallId s) \<and> callState s = CONNECTED
               \<longrightarrow> messages_with i es = polled i ms s"
    by blast
  show ?thesis using push_first poll_first[OF es(1)] es(2,3)
    by (auto simp: polled_def)
qed

text \<open>
  Witness for C1 on a connected call: push then poll gives one emission of \<open>m1\<close>, poll
  then push gives two, and poll then push with \<open>m1\<close> already in the ledger gives one.
\<close>

theorem dual_path_delivery_witness:
  "messages_with ''m1'' (emitted_since connected_call
       (pollTick poll_reply (handleDataChannelMessage (Decoded (conversation hello_final)) connected_call)))
     = [hello_final]
   \<and> messages_with ''m1'' (emitted_since connected_call
       (handleDataChannelMessage (Decoded (conversation hello_final)) (pollTick poll_reply connected_call)))
     = [hello_final, hello_final]
   \<and> messages_with ''m1'' (emitted_since (connected_call\<lparr>seenMessageIds := {''m1''}\<rparr>)
       (handleDataChannelMessage (Decoded (conversation hello_final))
          (pollTick poll_reply (connected_call\<lparr>seenMessageIds := {''m1''}\<rparr>))))
     = [hello_final]"
  using dual_path_delivery[of "conversation hello_final" "''m1''" connected_call poll_reply
      200 api_ok "[hello_final]" hello_final]
    dual_path_delivery[of "conversation hello_final" "''m1''"
      "connected_call\<lparr>seenMessageIds := {''m1''}\<rparr>" poll_reply]
  by (simp add: is_conversation_def conversation_def hello_final_def truthy_bool_def
      connected_call_def initial_def truthy_def poll_reply_def response_ok_def api_ok_def)

text \<open>
  Counterexample to C1 as stated: the poll delivers \<open>m1\<close> first, then the data channel
  delivers the complete \<open>m1\<close>; a complete push is never suppressed, so subscribers get
  the message twice.
\<close>

theorem dual_path_poll_first_counterexample:
  "messages (emitted (handleDataChannelMessage (Decoded (conversation hello_final))
                        (pollTick poll_reply connected_call)))
     = [hello_final, hello_final]"
  by (simp add: poll_connected push_final emit_def)

section \<open>Properties of the chat stream\<close>

lemma sse_start:
  assumes "eventType r = ''message:start''" "eventData r = Some d"
  shows "handleSSEEvent r (cid, acc) s
           = (Next, (or_default (messageId d) (''assistant-'' @ show_nat (now r)), []), s)"
  using assms by (simp add: handleSSEEvent_def)

lemma sse_chunk:
  assumes "eventType r = ''message:chunk''"
  shows "handleSSEEvent r (cid, acc) s = (Next, (cid, buffered acc [r]), s)"
  using assms by (simp add: handleSSEEvent_def split: option.splits)

lemma sse_complete:
  assumes "eventType r = ''message:complete''" "eventData r = Some d"
  shows "handleSSEEvent r (cid, acc) s
           = (Next, (cid, []),
              if seen_has (msg_id (completeMessage d (now r) cid acc)) s then s
              else emit (MessageEv (completeMessage d (now r) cid acc))
                     (seen_add (msg_id (completeMessage d (now r) cid acc)) s))"
  using assms by (simp add: handleSSEEvent_def Let_def)

lemma sse_chunks:
  assumes "\<forall>c \<in> set chunks. eventType c = ''message:chunk''"
  shows "handleSSERecords (map Record chunks @ rest) (cid, acc) s
           = handleSSERecords rest (cid, buffered acc chunks) s"
  using assms
proof (induction chunks arbitrary: acc)
  case Nil
  then show ?case by simp
next
  case (Cons c cs)
  then have "eventType c = ''message:chunk''" by simp
  from sse_chunk[OF this, of cid acc s] Cons show ?case by simp
qed

text \<open>
  Claim C7, amended. The stream consists of a \<open>message:start\<close> record with data, any
  number of \<open>message:chunk\<close> records and a \<open>message:complete\<close> record with data. The start
  and chunk records emit nothing and leave the state as it is. The complete record emits
  one message if its id (the server's, else the one of the start record) is not in the
  ledger, and nothing if it is. The message carries the server's role, \<open>assistant\<close> when
  there is none, and the server's content, the trimmed buffer when there is none.
\<close>

theorem sse_message_emitted_on_complete:
  assumes "eventType st = ''message:start''" "eventData st = Some ds"
    and "\<forall>c \<in> set chunks. eventType c = ''message:chunk''"
    and "eventType cp = ''message:complete''" "eventData cp = Some dc"
    and "m = completeMessage dc (now cp)
               (or_default (messageId ds) (''assistant-'' @ show_nat (now st)))
               (buffered [] chunks)"
  shows "handleSSERecords (Record st # map Record chunks) loc s = (Inr (), s)
       \<and> handleSSERecords (Record st # map Record chunks @ [Record cp]) loc s
           = (Inr (), if seen_has (msg_id m) s then s
                      else emit (MessageEv m) (seen_add (msg_id m) s))
       \<and> role m = Some (or_default (message_role dc) ''assistant'')
       \<and> content m = Some (or_default (message_content dc) (trim (buffered [] chunks)))"
proof -
  obtain cid acc where loc: "loc = (cid, acc)" by (cases loc)
  let ?cid = "or_default (messageId ds) (''assistant-'' @ show_nat (now st))"
  have 1: "\<And>rest. handleSSERecords (Record st # map Record chunks @ rest) loc s
             = handleSSERecords rest (?cid, buffered [] chunks) s"
    using sse_start[OF assms(1,2), of cid acc s] sse_chunks[OF assms(3)] by (simp add: loc)
  have a: "handleSSERecords (Record st # map Record chunks) loc s = (Inr (), s)"
    using 1[of "[]"] by simp
  have b: "handleSSERecords (Record st # map Record chunks @ [Record cp]) loc s
           = (Inr (), if seen_has (msg_id m) s then s
                      else emit (MessageEv m) (seen_add (msg_id m) s))"
    using 1[of "[Record cp]"] sse_complete[OF assms(4,5), of ?cid "buffered [] chunks" s] assms(6)
    by simp
  show ?thesis using a b assms(6) by (simp add: completeMessage_def)
qed

text \<open>The text of the example reply frames into the example records.\<close>

lemma hello_text_frames:
  "readStream toy_parse (\<lambda>k. 5000) 0 [] hello_text = hello_stream None"
  by code_simp

lemma user_id: "show_nat 4999 = ''4999''"
  by code_simp

lemma hello_complete:
  "completeMessage (no_data\<lparr>message_id := Some ''m1'', message_role := r,
       message_content := Some ''Hello there'', sse_timestamp := Some 1000\<rparr>) n ''m1'' b
   = hello_final\<lparr>role := Some (or_default r ''assistant'')\<rparr>"
  by (simp add: completeMessage_def no_data_def hello_final_def or_default_def timestamp_or_now_def)

text \<open>
  Witness for C7: the scenario of the specification from end to end. On an active chat,
  \<open>sendChatMessage("hi")\<close> is answered by a start record, three chunks and a complete
  record with content \<open>Hello there\<close>, read as text in three pieces. The events are the
  user's own message and one assistant message.
\<close>

theorem sse_message_emitted_on_complete_witness:
  "sendChatMessage ''hi'' say_hi active_chat
     = (Inr (), active_chat\<lparr>seenMessageIds := {''m1'', ''user-4999''},
                  emitted := [MessageEv user_hi, MessageEv hello_final]\<rparr>)"
proof -
  let ?s1 = "emit (MessageEv user_hi) (seen_add (Some ''user-4999'') active_chat)"
  have m: "hello_final = completeMessage
      (no_data\<lparr>message_id := Some ''m1'', message_role := None,
         message_content := Some ''Hello there'', sse_timestamp := Some 1000\<rparr>)
      (now (complete_record None ''Hello there''))
      (or_default (messageId (no_data\<lparr>messageId := Some ''m1''\<rparr>))
         (''assistant-'' @ show_nat (now start_record)))
      (buffered [] [chunk_record ''Hel'', chunk_record ''Hello'', chunk_record ''Hello there''])"
    by (simp add: hello_complete or_default_def hello_final_def)
  have h: "eventType start_record = ''message:start''"
    "eventData start_record = Some (no_data\<lparr>messageId := Some ''m1''\<rparr>)"
    "\<forall>c \<in> set [chunk_record ''Hel'', chunk_record ''Hello'', chunk_record ''Hello there''].
        eventType c = ''message:chunk''"
    "eventType (complete_record None ''Hello there'') = ''message:complete''"
    "eventData (complete_record None ''Hello there'') = Some (no_data\<lparr>message_id := Some ''m1'',
        message_role := None, message_content := Some ''Hello there'',
        sse_timestamp := Some 1000\<rparr>)"
    by (simp_all add: start_record_def chunk_record_def complete_record_def)
  have stream: "handleSSERecords (hello_stream None) (''assistant-4999'', []) ?s1
          = (Inr (), if seen_has (msg_id hello_final) ?s1 then ?s1
                     else emit (MessageEv hello_final) (seen_add (msg_id hello_final) ?s1))"
    unfolding hello_stream_def
    by (rule conjunct1[OF conjunct2[OF sse_message_emitted_on_complete[OF h m]]])
  have read: "handleSSEStream toy_parse (\<lambda>k. 5000) 4999 (Some hello_text) ?s1
          = handleSSERecords (hello_stream None) (''assistant-4999'', []) ?s1"
    by (simp add: handleSSEStream_def hello_text_frames user_id)
  have chat: "truthy (currentChatId active_chat)" "callState active_chat = CONNECTED"
    "\<not> seen_has (Some ''user-4999'') active_chat"
    by (simp_all add: active_chat_def initial_def truthy_def seen_has_def)
  have user: "\<lparr>msg_id = Some ''user-4999'', role = Some ''user'', content = Some ''hi'',
       timestamp = Some 4999, isComplete = Some True, isFirstChunk = None,
       isStreaming = None\<rparr> = user_hi"
    "msg_id user_hi = Some ''user-4999''"
    by (simp_all add: user_hi_def)
  have "sendChatMessage ''hi'' say_hi active_chat
          = (case handleSSEStream toy_parse (\<lambda>k. 5000) 4999 (Some hello_text) ?s1 of
               (Inl e, s2) \<Rightarrow> (Inl e, emit (ErrorEv e) s2)
             | (Inr u, s2) \<Rightarrow> (Inr (), s2))"
    by (simp add: sendChatMessage_def say_hi_def user_id Let_def response_ok_def chat user)
  also have "\<dots> = (Inr (), if seen_has (msg_id hello_final) ?s1 then ?s1
                     else emit (MessageEv hello_final) (seen_add (msg_id hello_final) ?s1))"
    by (simp only: read stream prod.case sum.case)
  also have "\<dots> = (Inr (), active_chat\<lparr>seenMessageIds := {''m1'', ''user-4999''},
                  emitted := [MessageEv user_hi, MessageEv hello_final]\<rparr>)"
    by (simp add: hello_final_def seen_has_def seen_add_def emit_def active_chat_def initial_def
        insert_commute)
  finally show ?thesis .
qed

text \<open>
  Counterexamples to C7 as stated: a later reply streamed under the id of an earlier one
  emits no message at all, so \<open>Goodbye\<close> never reaches the subscribers; and a complete
  record with role \<open>system\<close> is emitted with that role, not as \<open>assistant\<close>.
\<close>

theorem sse_message_counterexample:
  "messages (emitted (snd (handleSSERecords bye_stream (''assistant-6000'', [])
       (snd (handleSSERecords (hello_stream None) (''assistant-4999'', []) active_chat)))))
     = [hello_final]
   \<and> map role (messages (emitted (snd (handleSSERecords (hello_stream (Some ''system''))
       (''assistant-4999'', []) active_chat)))) = [Some ''system'']"
  by (simp add: hello_stream_def bye_stream_def start_record_def chunk_record_def
      complete_record_def handleSSEEvent_def completeMessage_def timestamp_or_now_def no_data_def
      or_default_def seen_has_def seen_add_def emit_def active_chat_def initial_def Let_def
      hello_final_def)

section \<open>The trace of state changes\<close>

lemma stateChanges_append: "stateChanges (xs @ ys) = stateChanges xs @ stateChanges ys"
  by (induction xs rule: stateChanges.induct) auto

lemma inv_setState: "stateChange_inv s \<Longrightarrow> stateChange_inv (setState n s)"
  by (auto simp: stateChange_inv_def setState_def emit_def stateChanges_append
      distinct_adj_append_iff)

lemma inv_emit:
  "(\<And>c. e \<noteq> StateChange c) \<Longrightarrow> stateChange_inv (emit e s) = stateChange_inv s"
  by (cases e) (auto simp: stateChange_inv_def emit_def stateChanges_append)

lemma inv_same:
  "callState s' = callState s \<Longrightarrow> emitted s' = emitted s
   \<Longrightarrow> stateChange_inv s' = stateChange_inv s"
  by (simp add: stateChange_inv_def)

lemma fold_detach_same:
  "callState (fold detachTrack xs s) = callState s \<and> emitted (fold detachTrack xs s) = emitted s"
  by (induction xs arbitrary: s) (auto simp: detachTrack_def)

lemma inv_cleanupAllTracks [simp]: "stateChange_inv (cleanupAllTracks s) = stateChange_inv s"
  by (rule inv_same) (simp_all add: cleanupAllTracks_def fold_detach_same)

lemma inv_stopMessagePolling [simp]: "stateChange_inv (stopMessagePolling s) = stateChange_inv s"
  by (rule inv_same) (simp_all add: stopMessagePolling_def)

lemma inv_startMessagePolling [simp]: "stateChange_inv (startMessagePolling s) = stateChange_inv s"
  by (rule inv_same) (simp_all add: startMessagePolling_def)

lemma inv_updates [simp]:
  "stateChange_inv (s\<lparr>room := a\<rparr>) = stateChange_inv s"
  "stateChange_inv (s\<lparr>localAudioTrack := b\<rparr>) = stateChange_inv s"
  "stateChange_inv (s\<lparr>assistantParticipant := c\<rparr>) = stateChange_inv s"
  "stateChange_inv (s\<lparr>attachedTracks := d\<rparr>) = stateChange_inv s"
  "stateChange_inv (s\<lparr>currentCallId := e\<rparr>) = stateChange_inv s"
  "stateChange_inv (s\<lparr>currentChatId := f\<rparr>) = stateChange_inv s"
  "stateChange_inv (s\<lparr>abortController := g\<rparr>) = stateChange_inv s"
  "stateChange_inv (s\<lparr>chatAbortController := h\<rparr>) = stateChange_inv s"
  "stateChange_inv (s\<lparr>pollInterval := i\<rparr>) = stateChange_inv s"
  "stateChange_inv (s\<lparr>seenMessageIds := j\<rparr>) = stateChange_inv s"
  "stateChange_inv (s\<lparr>shouldEndChatAfterStart := k\<rparr>) = stateChange_inv s"
  by (simp_all add: stateChange_inv_def)

lemma inv_seen_add [simp]: "stateChange_inv (seen_add v s) = stateChange_inv s"
  by (cases v) (simp_all add: seen_add_def)

lemma inv_endCall: "stateChange_inv s \<Longrightarrow> stateChange_inv (snd (endCall env s))"
  by (auto simp: endCall_def endCall_finish_def Let_def inv_setState inv_emit
      split: fetched.splits option.splits)

lemma inv_interleave: "stateChange_inv s \<Longrightarrow> stateChange_inv (interleave i s)"
  by (auto simp: interleave_def inv_endCall split: option.splits)

lemma inv_connectLoop:
  "stateChange_inv s \<Longrightarrow> stateChange_inv (fst (snd (connectLoop m d env k s)))"
proof (induction m d env k s rule: connectLoop.induct)
  case (1 m d env k s)
  show ?case
    using "1.prems" "1.IH" inv_interleave[of s "interleaved (env k)"]
    by (subst connectLoop.simps) (auto simp: Let_def split: option.splits prod.splits)
qed

lemma inv_publish: "stateChange_inv (snd (publishLocalAudio m s)) = stateChange_inv s"
  by (auto simp: publishLocalAudio_def split: mic_outcome.splits)

lemma fold_handle_same:
  "callState (fold handleAssistantAudioTrack xs s) = callState s
   \<and> emitted (fold handleAssistantAudioTrack xs s) = emitted s"
  by (induction xs arbitrary: s) (auto simp: handleAssistantAudioTrack_def)

lemma check_same:
  "callState (fold (\<lambda>p s'. if isAssistantParticipant p \<and> assistantParticipant s' = None
                        then setupAssistantTracks p (s'\<lparr>assistantParticipant := Some p\<rparr>)
                        else s') ps s) = callState s
   \<and> emitted (fold (\<lambda>p s'. if isAssistantParticipant p \<and> assistantParticipant s' = None
                        then setupAssistantTracks p (s'\<lparr>assistantParticipant := Some p\<rparr>)
                        else s') ps s) = emitted s"
  by (induction ps arbitrary: s) (auto simp: setupAssistantTracks_def fold_handle_same)

lemma inv_checkExisting [simp]:
  "stateChange_inv (checkExistingParticipants s) = stateChange_inv s"
  by (rule inv_same) (auto simp: checkExistingParticipants_def check_same split: option.splits)

lemma inv_connectToRoom:
  "stateChange_inv s \<Longrightarrow> stateChange_inv (fst (snd (connectToRoom cfg env s)))"
  by (auto simp: connectToRoom_def intro: inv_connectLoop)

lemma inv_bootstrap: "stateChange_inv s \<Longrightarrow> stateChange_inv (snd (bootstrap cfg env s))"
  using inv_connectToRoom[of "createRoom (present env) (s\<lparr>currentCallId := Some callId\<rparr>)" cfg "attempts env" for callId]
  by (auto simp: bootstrap_def Let_def createRoom_def inv_setState
       split: sum.splits prod.splits)
     (metis fst_conv snd_conv inv_publish inv_setState inv_checkExisting inv_startMessagePolling)+

lemma inv_startCall: "stateChange_inv s \<Longrightarrow> stateChange_inv (snd (startCall cfg env s))"
  using inv_bootstrap[of "(setState CONNECTING s)\<lparr>seenMessageIds := {}\<rparr>" cfg env]
  by (auto simp: startCall_def inv_setState inv_emit split: prod.splits sum.splits)

lemma inv_endChatSession: "stateChange_inv s \<Longrightarrow> stateChange_inv (snd (endChatSession f s))"
  by (auto simp: endChatSession_def Let_def inv_setState inv_emit split: fetched.splits)

lemma inv_startChat_catch: "stateChange_inv s \<Longrightarrow> stateChange_inv (snd (startChat_catch e s))"
  by (auto simp: startChat_catch_def inv_setState inv_emit)

lemma inv_startChat_begin:
  "stateChange_inv s \<Longrightarrow> startChatSession_begin s = Inr s' \<Longrightarrow> stateChange_inv s'"
  by (auto simp: startChatSession_begin_def inv_setState split: if_splits)

lemma inv_startChat_resume:
  assumes "stateChange_inv s"
  shows "stateChange_inv (snd (startChatSession_resume env s))"
proof -
  have c: "\<And>e. stateChange_inv (snd (startChat_catch e s))"
    using assms by (rule inv_startChat_catch)
  have n: "\<And>c. stateChange_inv (snd (endChatSession (nestedEnd env) (s\<lparr>currentChatId := Some c\<rparr>)))"
    using assms by (simp add: inv_endChatSession)
  have n2: "\<And>c e. stateChange_inv
     (snd (startChat_catch e (snd (endChatSession (nestedEnd env) (s\<lparr>currentChatId := Some c\<rparr>)))))"
    using n by (rule inv_startChat_catch)
  show ?thesis
  proof (cases "createFetch env")
    case (Rejected e)
    then show ?thesis using c[of e]
      by (auto simp: startChatSession_resume_def split: prod.splits)
  next
    case (Replied st data chatId)
    then show ?thesis
      using c[of "parseAPIError data st"] n[of chatId] n2[of _ chatId] assms
      by (auto simp: startChatSession_resume_def Let_def inv_setState inv_emit
          split: prod.splits sum.splits) (metis snd_conv)
  qed
qed

lemma inv_startChatSession:
  "stateChange_inv s \<Longrightarrow> stateChange_inv (snd (startChatSession env s))"
  by (auto simp: startChatSession_def inv_startChat_resume split: sum.splits
      dest: inv_startChat_begin)

lemma inv_onRoomDisconnected:
  "stateChange_inv s \<Longrightarrow> stateChange_inv (onRoomDisconnected reason s)"
  by (simp add: onRoomDisconnected_def inv_emit inv_setState)

lemma inv_toggleMute: "stateChange_inv (snd (toggleMute f s)) = stateChange_inv s"
  by (auto simp: toggleMute_def Let_def inv_emit split: option.splits fetched.splits)

lemma inv_push: "stateChange_inv (handleDataChannelMessage p s) = stateChange_inv s"
  by (cases p) (auto simp: handleDataChannelMessage_def Let_def inv_emit)

lemma inv_emitUnseen: "stateChange_inv (emitUnseen ms s) = stateChange_inv s"
  by (induction ms arbitrary: s) (auto simp: emitIfUnseen_def inv_emit)

lemma inv_pollTick: "stateChange_inv (pollTick f s) = stateChange_inv s"
  by (auto simp: pollTick_def inv_emitUnseen split: sum.splits)

lemma inv_handleSSEEvent:
  "stateChange_inv (snd (snd (handleSSEEvent r loc s))) = stateChange_inv s"
  by (cases loc) (auto simp: handleSSEEvent_def Let_def inv_emit split: option.splits)

lemma inv_handleSSERecords:
  "stateChange_inv (snd (handleSSERecords items loc s)) = stateChange_inv s"
proof (induction items loc s rule: handleSSERecords.induct)
  case (3 r rest loc s)
  obtain fl loc' s' where h: "handleSSEEvent r loc s = (fl, loc', s')"
    by (cases "handleSSEEvent r loc s") auto
  then have s': "stateChange_inv s' = stateChange_inv s"
    using inv_handleSSEEvent[of r loc s] by simp
  show ?case
  proof (cases fl)
    case Next
    then show ?thesis using h s' "3.IH" by auto
  qed (use h s' in simp_all)
qed simp_all

lemma inv_sendChatMessage:
  "stateChange_inv (snd (sendChatMessage txt env s)) = stateChange_inv s"
proof -
  have 1: "\<And>t p c n b. stateChange_inv (snd (handleSSEStream p c n b t)) = stateChange_inv t"
    by (auto simp: handleSSEStream_def inv_handleSSERecords split: option.splits)
  show ?thesis
    using 1
    by (auto simp: sendChatMessage_def Let_def inv_emit split: fetched.splits prod.splits sum.splits)
       (metis snd_conv inv_emit inv_seen_add event.distinct)+
qed

text \<open>
  Claim C10. \<open>setState\<close> emits \<open>stateChange\<close> exactly when the new state differs from
  the current one, and the state is the new one afterwards. The invariant
  \<open>stateChange_inv\<close> says that no two consecutive \<open>stateChange\<close> emissions carry the same
  value and that the last one carries the current state. It holds initially and is
  preserved by \<open>setState\<close>, by every public operation (\<open>startCall\<close>, \<open>endCall\<close>,
  \<open>startChatSession\<close> as a whole and in its two halves, \<open>endChatSession\<close>, \<open>toggleMute\<close>,
  \<open>sendChatMessage\<close>) and by the callbacks of the transport and the polling timer.
\<close>

theorem stateChange_emitted_iff_changed:
  "emitted (setState n s) = emitted s @ (if callState s \<noteq> n then [StateChange n] else [])
   \<and> callState (setState n s) = n
   \<and> stateChange_inv initial
   \<and> (stateChange_inv s \<longrightarrow>
         distinct_adj (stateChanges (emitted s))
         \<and> stateChange_inv (setState n s)
         \<and> stateChange_inv (snd (startCall cfg senv s))
         \<and> stateChange_inv (snd (endCall eenv s))
         \<and> stateChange_inv (snd (startChatSession cenv s))
         \<and> (\<forall>s'. startChatSession_begin s = Inr s' \<longrightarrow> stateChange_inv s')
         \<and> stateChange_inv (snd (startChatSession_resume cenv s))
         \<and> stateChange_inv (snd (endChatSession f s))
         \<and> stateChange_inv (snd (toggleMute g s))
         \<and> stateChange_inv (snd (sendChatMessage txt menv s))
         \<and> stateChange_inv (onRoomDisconnected reason s)
         \<and> stateChange_inv (handleDataChannelMessage p s)
         \<and> stateChange_inv (pollTick h s))"
proof (intro conjI impI allI)
  show "emitted (setState n s) = emitted s @ (if callState s \<noteq> n then [StateChange n] else [])"
    by (simp add: setState_def emit_def)
  show "callState (setState n s) = n"
    by (simp add: setState_def emit_def)
  show "stateChange_inv initial"
    by (simp add: stateChange_inv_def initial_def)
next
  assume i: "stateChange_inv s"
  then show "distinct_adj (stateChanges (emitted s))"
    by (simp add: stateChange_inv_def)
  from i show "stateChange_inv (setState n s)" by (rule inv_setState)
  from i show "stateChange_inv (snd (startCall cfg senv s))" by (rule inv_startCall)
  from i show "stateChange_inv (snd (endCall eenv s))" by (rule inv_endCall)
  from i show "stateChange_inv (snd (startChatSession cenv s))" by (rule inv_startChatSession)
  from i show "stateChange_inv (snd (startChatSession_resume cenv s))"
    by (rule inv_startChat_resume)
  from i show "stateChange_inv (snd (endChatSession f s))" by (rule inv_endChatSession)
  from i show "stateChange_inv (snd (toggleMute g s))" by (simp add: inv_toggleMute)
  from i show "stateChange_inv (snd (sendChatMessage txt menv s))"
    by (simp add: inv_sendChatMessage)
  from i show "stateChange_inv (onRoomDisconnected reason s)" by (rule inv_onRoomDisconnected)
  from i show "stateChange_inv (handleDataChannelMessage p s)" by (simp add: inv_push)
  from i show "stateChange_inv (pollTick h s)" by (simp add: inv_pollTick)
next
  fix s' assume "stateChange_inv s" "startChatSession_begin s = Inr s'"
  then show "stateChange_inv s'" by (rule inv_startChat_begin)
qed

text \<open>
  Witness for C10: a failed \<open>startCall\<close> from the initial state emits \<open>CONNECTING\<close> and
  then \<open>IDLE\<close>.
\<close>

theorem stateChange_emitted_iff_changed_witness:
  "stateChange_inv initial
   \<and> stateChanges (emitted (snd (startCall default_config no_credits_env initial)))
       = [CONNECTING, IDLE]
   \<and> stateChange_inv (snd (startCall default_config no_credits_env initial))"
  using stateChange_emitted_iff_changed[of IDLE initial default_config no_credits_env]
  by (simp add: no_credits_run)

end
